theory Spec2Isabelle
  imports Main "HOL-Library.Sublist" "HOL-Library.Word"
begin

section \<open>Login and renewal of the PCF auth backend (path\_login.go)\<close>

text \<open>
  A shallow embedding of \<^verbatim>\<open>src/path_login.go\<close>. The handlers of that file are
  glue around collaborators that live in other packages (the signature matcher, the
  configuration and role stores, the certificate parser, the CF API client, the Go standard
  library). Each collaborator is a field of the record \<open>externals\<close>, so every theorem
  holds for whatever those collaborators return.

  Conventions.
  \<^item> A Go \<^verbatim>\<open>error\<close> is the text its \<^verbatim>\<open>Error()\<close> method yields.
  \<^item> A Go call returning \<^verbatim>\<open>(v, err)\<close> whose \<^verbatim>\<open>err\<close> is tested before
    \<^verbatim>\<open>v\<close> is used is a sum \<open>error + 'a\<close> (\<open>Inl\<close> the error). The one call
    whose error is dropped, \<^verbatim>\<open>models.NewPCFCertificate\<close> in the renewal handler, is
    the pair Go returns, with the pointer as an \<open>option\<close> (\<open>None\<close> is \<^verbatim>\<open>nil\<close>).
  \<^item> A function returns a \<open>result\<close>: a value, an error, or a panic (a nil pointer
    dereference).
  \<^item> Effects are explicit: every function that calls out returns the list of calls it made,
    in program order, after the calls made before it (the \<open>trace\<close> argument).
\<close>

subsection \<open>Data\<close>

type_synonym error = string

datatype 'a result = Ok 'a | Err error | Panic

text \<open>
  \<^verbatim>\<open>time.Time\<close> and \<^verbatim>\<open>time.Duration\<close> in nanoseconds. Both times compared in
  \<^verbatim>\<open>attemptLogin\<close> carry no monotonic reading (\<^verbatim>\<open>UTC()\<close> strips it, a parsed
  time has none), so \<^verbatim>\<open>Before\<close> and \<^verbatim>\<open>After\<close> compare instants. A
  \<^verbatim>\<open>time.Time\<close> counts seconds from the year 1 in 64 bits; the time of receipt is the
  present and a parsed time has a year of four digits, so \<^verbatim>\<open>Add\<close> of five minutes or
  thirty seconds stays far from the ends of that range and is plain addition.
\<close>

type_synonym Time = int
type_synonym Duration = int

definition Second :: Duration where
  "Second = 1000000000"

definition Minute :: Duration where
  "Minute = 60 * Second"

definition Add :: "Time \<Rightarrow> Duration \<Rightarrow> Time" where
  "Add t d = t + d"

definition Before :: "Time \<Rightarrow> Time \<Rightarrow> bool" where
  "Before t u = (t < u)"

definition After :: "Time \<Rightarrow> Time \<Rightarrow> bool" where
  "After t u = (t > u)"

text \<open>\<^verbatim>\<open>net.IP\<close> is a byte slice: empty (nil), 4 bytes or 16 bytes.\<close>

type_synonym IP = "8 word list"

text \<open>
  A Go map from strings to strings; reading a missing key gives the empty string. The
  request's field data is read the same way (\<^verbatim>\<open>data.Get(k).(string)\<close> is the schema's
  default, the empty string, for a field that was not sent).
\<close>

type_synonym strmap = "string \<rightharpoonup> string"

definition Get :: "strmap \<Rightarrow> string \<Rightarrow> string" where
  "Get m k = (case m k of None \<Rightarrow> [] | Some v \<Rightarrow> v)"

type_synonym storage = strmap

record PCFCertificate =
  InstanceID :: string
  OrgID :: string
  SpaceID :: string
  AppID :: string
  IPAddress :: IP

record RoleEntry =
  BoundAppIDs :: "string list"
  BoundSpaceIDs :: "string list"
  BoundOrgIDs :: "string list"
  BoundInstanceIDs :: "string list"
  BoundCIDRs :: "string list"
  Policies :: "string list"
  DisableIPMatching :: bool
  TTL :: Duration
  MaxTTL :: Duration
  Period :: Duration

record Configuration =
  PCFAPIAddr :: string
  PCFUsername :: string
  PCFPassword :: string

record SignatureData =
  SigningTime :: Time
  Role :: string
  Certificate :: string

text \<open>\<^verbatim>\<open>logical.Auth\<close>, with its embedded \<^verbatim>\<open>LeaseOptions\<close> and its alias.\<close>

record LeaseOptions =
  Lease_TTL :: Duration
  Lease_MaxTTL :: Duration
  Lease_Renewable :: bool

record Alias =
  Alias_Name :: string

record Auth =
  Auth_LeaseOptions :: LeaseOptions
  Auth_DisplayName :: string
  Auth_Policies :: "string list"
  Auth_Metadata :: strmap
  Auth_Period :: Duration
  Auth_Alias :: "Alias option"
  Auth_BoundCIDRs :: "string list"

text \<open>
  \<^verbatim>\<open>logical.Response\<close>: this file builds either a response carrying an \<^verbatim>\<open>Auth\<close>
  or \<^verbatim>\<open>logical.ErrorResponse(text)\<close>.
\<close>

datatype Response = AuthResponse Auth | ErrorResponse string

text \<open>
  \<^verbatim>\<open>logical.Request\<close>: the fields the handlers read. \<open>RemoteAddr\<close> is
  \<^verbatim>\<open>req.Connection.RemoteAddr\<close> and \<open>ReqAuth\<close> is \<^verbatim>\<open>req.Auth\<close>; the framework
  sets both pointers before a login or a renewal reaches the backend.
\<close>

record Request =
  Storage :: storage
  RemoteAddr :: string
  ReqAuth :: Auth

text \<open>The records of the CF API client.\<close>

record cfclient_Config =
  ApiAddress :: string
  Username :: string
  Password :: string

record ServiceInstance =
  SI_Guid :: string
  SI_SpaceGuid :: string

record App =
  App_Guid :: string
  App_SpaceGuid :: string
  App_Instances :: int

record Org =
  Org_Guid :: string

record Space =
  Space_Guid :: string
  Space_OrganizationGuid :: string

record Client =
  GetServiceInstanceByGuid :: "string \<Rightarrow> error + ServiceInstance"
  AppByGuid :: "string \<Rightarrow> error + App"
  GetOrgByGuid :: "string \<Rightarrow> error + Org"
  GetSpaceByGuid :: "string \<Rightarrow> error + Space"

text \<open>
  The calls a trace records: the checks \<^verbatim>\<open>validate\<close> evaluates, the calls to the
  CF API client, the UUID generator and the logger.
\<close>

datatype call =
    Call_matchesIPAddress
  | Call_meetsBoundConstraints string "string list"
  | Call_RemoteAddrIsOk
  | Call_NewClient
  | Call_GetServiceInstanceByGuid string
  | Call_AppByGuid string
  | Call_GetOrgByGuid string
  | Call_GetSpaceByGuid string
  | Call_GenerateUUID
  | Call_logger_Error string

type_synonym trace = "call list"

text \<open>
  The collaborators. \<open>'cert\<close> is \<^verbatim>\<open>*x509.Certificate\<close> and \<open>'opts\<close> is
  \<^verbatim>\<open>x509.VerifyOptions\<close>; the handlers only pass them on.
\<close>

record ('cert, 'opts) externals =
  time_Now :: Time
  time_Parse :: "string \<Rightarrow> string \<Rightarrow> error + Time"
  TimeFormat :: string
  BashTimeFormat :: string
  Time_String :: "Time \<Rightarrow> string"
  signatures_Verify :: "string \<Rightarrow> SignatureData \<Rightarrow> error + 'cert"
  config :: "storage \<Rightarrow> error + Configuration option"
  VerifyOpts :: "Configuration \<Rightarrow> error + 'opts"
  x509_Verify :: "'cert \<Rightarrow> 'opts \<Rightarrow> error option"
  NewPCFCertificateFromx509 :: "'cert \<Rightarrow> error + PCFCertificate"
  NewPCFCertificate ::
    "string \<Rightarrow> string \<Rightarrow> string \<Rightarrow> string \<Rightarrow> string \<Rightarrow> PCFCertificate option \<times> error option"
  getRole :: "storage \<Rightarrow> string \<Rightarrow> error + RoleEntry option"
  net_ParseIP :: "string \<Rightarrow> IP"
  IP_String :: "IP \<Rightarrow> string"
  RemoteAddrIsOk :: "string \<Rightarrow> string list \<Rightarrow> bool"
  cfclient_NewClient :: "cfclient_Config \<Rightarrow> error + Client"
  GenerateUUID :: "string \<times> error option"

subsection \<open>Formatting\<close>

text \<open>\<^verbatim>\<open>%s\<close> of a \<^verbatim>\<open>[]string\<close>: the elements between brackets, separated by spaces.\<close>

fun join_space :: "string list \<Rightarrow> string" where
  "join_space [] = []"
| "join_space [x] = x"
| "join_space (x # y # ys) = x @ '' '' @ join_space (y # ys)"

definition fmt_strings :: "string list \<Rightarrow> string" where
  "fmt_strings xs = ''['' @ join_space xs @ '']''"

subsection \<open>meetsBoundConstraints and matchesIPAddress\<close>

text \<open>The loop of \<^verbatim>\<open>meetsBoundConstraints\<close>, lines 325 to 330.\<close>

fun constraint_loop :: "string \<Rightarrow> string list \<Rightarrow> bool" where
  "constraint_loop certValue [] = False"
| "constraint_loop certValue (p # ps) = (if p = certValue then True else constraint_loop certValue ps)"

definition meetsBoundConstraints :: "string \<Rightarrow> string list \<Rightarrow> bool" where
  "meetsBoundConstraints certValue constraints =
     (if length constraints = 0 then True else constraint_loop certValue constraints)"

text \<open>
  \<^verbatim>\<open>strings.Split(s, "/")\<close>: the pieces of \<open>s\<close> between the slashes, one more piece
  than there are slashes.
\<close>

fun Split_slash :: "string \<Rightarrow> string list" where
  "Split_slash [] = [[]]"
| "Split_slash (c # cs) =
     (if c = CHR ''/'' then [] # Split_slash cs
      else (case Split_slash cs of p # ps \<Rightarrow> (c # p) # ps | [] \<Rightarrow> [[c]]))"

text \<open>\<^verbatim>\<open>net.IP.Equal\<close> of the Go standard library: an IPv4 address equals its 16-byte form.\<close>

definition v4InV6Prefix :: IP where
  "v4InV6Prefix = [0, 0, 0, 0, 0, 0, 0, 0, 0, 0, 255, 255]"

definition IP_Equal :: "IP \<Rightarrow> IP \<Rightarrow> bool" where
  "IP_Equal ip x =
     (if length ip = length x then ip = x
      else if length ip = 4 \<and> length x = 16 then take 12 x = v4InV6Prefix \<and> ip = drop 12 x
      else if length ip = 16 \<and> length x = 4 then take 12 ip = v4InV6Prefix \<and> drop 12 ip = x
      else False)"

text \<open>\<^verbatim>\<open>net.IPv4(a, b, c, d)\<close>: the 16-byte form of an IPv4 address.\<close>

definition IPv4 :: "8 word \<Rightarrow> 8 word \<Rightarrow> 8 word \<Rightarrow> 8 word \<Rightarrow> IP" where
  "IPv4 a b c d = v4InV6Prefix @ [a, b, c, d]"

text \<open>
  \<^verbatim>\<open>parts[0]\<close> is in range: \<open>Split_slash\<close> never returns the empty list
  (\<open>Split_slash_nonempty\<close> below).
\<close>

definition matchesIPAddress :: "(string \<Rightarrow> IP) \<Rightarrow> string \<Rightarrow> IP \<Rightarrow> bool" where
  "matchesIPAddress ParseIP remoteAddr certIP =
     (let parts = Split_slash remoteAddr;
          reqIPAddr = ParseIP (parts ! 0)
      in if IP_Equal certIP reqIPAddr then True else False)"

subsection \<open>validate\<close>

text \<open>
  The four blocks of \<^verbatim>\<open>validate\<close> that question the CF API, lines 269 to 315: each
  makes one lookup and compares what it returns with the certificate. \<open>None\<close> means the
  block fell through to the next statement.
\<close>

definition check_service_instance :: "Client \<Rightarrow> PCFCertificate \<Rightarrow> error option" where
  "check_service_instance client pcfCert =
     (case GetServiceInstanceByGuid client (InstanceID pcfCert) of
        Inl err \<Rightarrow> Some err
      | Inr serviceInstance \<Rightarrow>
          if SI_Guid serviceInstance \<noteq> InstanceID pcfCert then
            Some (''cert instance ID '' @ InstanceID pcfCert @
                  '' doesn't match API's expected one of '' @ SI_Guid serviceInstance)
          else if SI_SpaceGuid serviceInstance \<noteq> SpaceID pcfCert then
            Some (''cert space ID '' @ SpaceID pcfCert @
                  '' doesn't match API's expected one of '' @ SI_SpaceGuid serviceInstance)
          else None)"

definition check_app :: "Client \<Rightarrow> PCFCertificate \<Rightarrow> error option" where
  "check_app client pcfCert =
     (case AppByGuid client (AppID pcfCert) of
        Inl err \<Rightarrow> Some err
      | Inr app \<Rightarrow>
          if App_Guid app \<noteq> AppID pcfCert then
            Some (''cert app ID '' @ AppID pcfCert @
                  '' doesn't match API's expected one of '' @ App_Guid app)
          else if App_SpaceGuid app \<noteq> SpaceID pcfCert then
            Some (''cert space ID '' @ SpaceID pcfCert @
                  '' doesn't match API's expected one of '' @ App_SpaceGuid app)
          else if App_Instances app \<le> 0 then
            Some ''app doesn't have any live instances''
          else None)"

definition check_org :: "Client \<Rightarrow> PCFCertificate \<Rightarrow> error option" where
  "check_org client pcfCert =
     (case GetOrgByGuid client (OrgID pcfCert) of
        Inl err \<Rightarrow> Some err
      | Inr org \<Rightarrow>
          if Org_Guid org \<noteq> OrgID pcfCert then
            Some (''cert org ID '' @ OrgID pcfCert @
                  '' doesn't match API's expected one of '' @ Org_Guid org)
          else None)"

definition check_space :: "Client \<Rightarrow> PCFCertificate \<Rightarrow> error option" where
  "check_space client pcfCert =
     (case GetSpaceByGuid client (SpaceID pcfCert) of
        Inl err \<Rightarrow> Some err
      | Inr space \<Rightarrow>
          if Space_Guid space \<noteq> SpaceID pcfCert then
            Some (''cert space ID '' @ SpaceID pcfCert @
                  '' doesn't match API's expected one of '' @ Space_Guid space)
          else if Space_OrganizationGuid space \<noteq> OrgID pcfCert then
            Some (''cert org ID '' @ OrgID pcfCert @
                  '' doesn't match API's expected one of '' @ Space_OrganizationGuid space)
          else None)"

text \<open>Lines 259 to 316 of \<^verbatim>\<open>validate\<close>: the client is built, then the four blocks run.\<close>

definition validate_api ::
  "('cert, 'opts) externals \<Rightarrow> Configuration \<Rightarrow> PCFCertificate \<Rightarrow> trace \<Rightarrow> unit result \<times> trace" where
  "validate_api ext cfg pcfCert tr0 =
     (let tr1 = tr0 @ [Call_NewClient] in
      case cfclient_NewClient ext
             \<lparr>ApiAddress = PCFAPIAddr cfg, Username = PCFUsername cfg, Password = PCFPassword cfg\<rparr> of
        Inl err \<Rightarrow> (Err err, tr1)
      | Inr client \<Rightarrow>
     (let tr2 = tr1 @ [Call_GetServiceInstanceByGuid (InstanceID pcfCert)] in
      case check_service_instance client pcfCert of
        Some err \<Rightarrow> (Err err, tr2)
      | None \<Rightarrow>
     (let tr3 = tr2 @ [Call_AppByGuid (AppID pcfCert)] in
      case check_app client pcfCert of
        Some err \<Rightarrow> (Err err, tr3)
      | None \<Rightarrow>
     (let tr4 = tr3 @ [Call_GetOrgByGuid (OrgID pcfCert)] in
      case check_org client pcfCert of
        Some err \<Rightarrow> (Err err, tr4)
      | None \<Rightarrow>
     (let tr5 = tr4 @ [Call_GetSpaceByGuid (SpaceID pcfCert)] in
      case check_space client pcfCert of
        Some err \<Rightarrow> (Err err, tr5)
      | None \<Rightarrow> (Ok (), tr5))))))"

text \<open>Lines 243 to 257 of \<^verbatim>\<open>validate\<close>: the bound constraints, then the CF API.\<close>

definition validate_bound ::
  "('cert, 'opts) externals \<Rightarrow> Configuration \<Rightarrow> RoleEntry \<Rightarrow> PCFCertificate \<Rightarrow> string \<Rightarrow> trace
     \<Rightarrow> unit result \<times> trace" where
  "validate_bound ext cfg role pcfCert reqConnRemoteAddr tr0 =
     (let tr1 = tr0 @ [Call_meetsBoundConstraints (InstanceID pcfCert) (BoundInstanceIDs role)] in
      if \<not> meetsBoundConstraints (InstanceID pcfCert) (BoundInstanceIDs role) then
        (Err (''instance ID '' @ InstanceID pcfCert @ '' doesn't match role constraints of '' @
              fmt_strings (BoundInstanceIDs role)), tr1)
      else
     (let tr2 = tr1 @ [Call_meetsBoundConstraints (AppID pcfCert) (BoundAppIDs role)] in
      if \<not> meetsBoundConstraints (AppID pcfCert) (BoundAppIDs role) then
        (Err (''app ID '' @ AppID pcfCert @ '' doesn't match role constraints of '' @
              fmt_strings (BoundAppIDs role)), tr2)
      else
     (let tr3 = tr2 @ [Call_meetsBoundConstraints (OrgID pcfCert) (BoundOrgIDs role)] in
      if \<not> meetsBoundConstraints (OrgID pcfCert) (BoundOrgIDs role) then
        (Err (''org ID '' @ OrgID pcfCert @ '' doesn't match role constraints of '' @
              fmt_strings (BoundOrgIDs role)), tr3)
      else
     (let tr4 = tr3 @ [Call_meetsBoundConstraints (SpaceID pcfCert) (BoundSpaceIDs role)] in
      if \<not> meetsBoundConstraints (SpaceID pcfCert) (BoundSpaceIDs role) then
        (Err (''space ID '' @ SpaceID pcfCert @ '' doesn't match role constraints of '' @
              fmt_strings (BoundSpaceIDs role)), tr4)
      else
     (let tr5 = tr4 @ [Call_RemoteAddrIsOk] in
      if \<not> RemoteAddrIsOk ext reqConnRemoteAddr (BoundCIDRs role) then
        (Err (''remote address '' @ reqConnRemoteAddr @ '' doesn't match role constraints of '' @
              fmt_strings (BoundCIDRs role)), tr5)
      else validate_api ext cfg pcfCert tr5)))))"

text \<open>
  \<^verbatim>\<open>validate\<close>. Its first statement to run reads a field of \<^verbatim>\<open>pcfCert\<close>
  (\<^verbatim>\<open>pcfCert.IPAddress\<close>, or \<^verbatim>\<open>pcfCert.InstanceID\<close> when IP matching is disabled),
  so a nil certificate panics before any call is made.
\<close>

definition validate ::
  "('cert, 'opts) externals \<Rightarrow> Configuration \<Rightarrow> RoleEntry \<Rightarrow> PCFCertificate option \<Rightarrow> string \<Rightarrow> trace
     \<Rightarrow> unit result \<times> trace" where
  "validate ext cfg role pcfCertPtr reqConnRemoteAddr tr0 =
     (case pcfCertPtr of
        None \<Rightarrow> (Panic, tr0)
      | Some pcfCert \<Rightarrow>
          if \<not> DisableIPMatching role then
            (let tr1 = tr0 @ [Call_matchesIPAddress] in
             if \<not> matchesIPAddress (net_ParseIP ext) reqConnRemoteAddr (IPAddress pcfCert) then
               (Err ''no matching IP address'', tr1)
             else validate_bound ext cfg role pcfCert reqConnRemoteAddr tr1)
          else validate_bound ext cfg role pcfCert reqConnRemoteAddr tr0)"

subsection \<open>Login\<close>

definition parseTime :: "('cert, 'opts) externals \<Rightarrow> string \<Rightarrow> error + Time" where
  "parseTime ext signingTime =
     (case time_Parse ext (TimeFormat ext) signingTime of
        Inr t \<Rightarrow> Inr t
      | Inl _ \<Rightarrow>
          (case time_Parse ext (BashTimeFormat ext) signingTime of
             Inr t \<Rightarrow> Inr t
           | Inl _ \<Rightarrow> Inl (''couldn't parse '' @ signingTime)))"

text \<open>Lines 110 to 120 of \<^verbatim>\<open>attemptLogin\<close>: the window around the time of receipt.\<close>

definition too_old :: "('cert, 'opts) externals \<Rightarrow> Time \<Rightarrow> Time \<Rightarrow> string \<Rightarrow> error" where
  "too_old ext signingTime timeReceived signingTimeRaw =
     ''request is too old; signed at '' @ Time_String ext signingTime @
     '' but received request at '' @ Time_String ext timeReceived @
     ''; raw signing time is '' @ signingTimeRaw"

definition too_far_in_future :: "('cert, 'opts) externals \<Rightarrow> Time \<Rightarrow> Time \<Rightarrow> string \<Rightarrow> error" where
  "too_far_in_future ext signingTime timeReceived signingTimeRaw =
     ''request is too far in the future; signed at '' @ Time_String ext signingTime @
     '' but received request at '' @ Time_String ext timeReceived @
     ''; raw signing time is '' @ signingTimeRaw"

definition check_signing_time ::
  "('cert, 'opts) externals \<Rightarrow> Time \<Rightarrow> Time \<Rightarrow> string \<Rightarrow> error option" where
  "check_signing_time ext timeReceived signingTime signingTimeRaw =
     (let fiveMinutesAgo = Add timeReceived (Minute * (- 5));
          thirtySecondsFromNow = Add timeReceived (Second * 30)
      in if Before signingTime fiveMinutesAgo then
           Some (too_old ext signingTime timeReceived signingTimeRaw)
         else if After signingTime thirtySecondsFromNow then
           Some (too_far_in_future ext signingTime timeReceived signingTimeRaw)
         else None)"

text \<open>Lines 122 to 195 of \<^verbatim>\<open>attemptLogin\<close>: signature, CA, identity, role, validation.\<close>

definition attemptLogin_verified ::
  "('cert, 'opts) externals \<Rightarrow> Request \<Rightarrow> string \<Rightarrow> string \<Rightarrow> string \<Rightarrow> Time
     \<Rightarrow> Response result \<times> trace" where
  "attemptLogin_verified ext req roleName signature clientCertificate signingTime =
     (case signatures_Verify ext signature
             \<lparr>SigningTime = signingTime, Role = roleName, Certificate = clientCertificate\<rparr> of
        Inl err \<Rightarrow> (Err err, [])
      | Inr matchingCert \<Rightarrow>
     (case config ext (Storage req) of
        Inl err \<Rightarrow> (Err err, [])
      | Inr None \<Rightarrow> (Err ''no CA is configured for verifying client certificates'', [])
      | Inr (Some cfg) \<Rightarrow>
     (case VerifyOpts ext cfg of
        Inl err \<Rightarrow> (Err err, [])
      | Inr verifyOpts \<Rightarrow>
     (case x509_Verify ext matchingCert verifyOpts of
        Some err \<Rightarrow> (Err err, [])
      | None \<Rightarrow>
     (case NewPCFCertificateFromx509 ext matchingCert of
        Inl err \<Rightarrow> (Err err, [])
      | Inr pcfCert \<Rightarrow>
     (case getRole ext (Storage req) roleName of
        Inl err \<Rightarrow> (Err err, [])
      | Inr None \<Rightarrow> (Err ''no matching role'', [])
      | Inr (Some role) \<Rightarrow>
     (case validate ext cfg role (Some pcfCert) (RemoteAddr req) [] of
        (Err err, tr) \<Rightarrow> (Err err, tr)
      | (Panic, tr) \<Rightarrow> (Panic, tr)
      | (Ok _, tr) \<Rightarrow>
          (Ok (AuthResponse
             \<lparr>Auth_LeaseOptions =
                \<lparr>Lease_TTL = TTL role, Lease_MaxTTL = MaxTTL role, Lease_Renewable = True\<rparr>,
              Auth_DisplayName = InstanceID pcfCert,
              Auth_Policies = Policies role,
              Auth_Metadata =
                [''role'' \<mapsto> roleName,
                 ''instance_id'' \<mapsto> InstanceID pcfCert,
                 ''org_id'' \<mapsto> OrgID pcfCert,
                 ''app_id'' \<mapsto> AppID pcfCert,
                 ''space_id'' \<mapsto> SpaceID pcfCert,
                 ''ip_address'' \<mapsto> IP_String ext (IPAddress pcfCert)],
              Auth_Period = Period role,
              Auth_Alias = Some \<lparr>Alias_Name = AppID pcfCert\<rparr>,
              Auth_BoundCIDRs = BoundCIDRs role\<rparr>), tr))))))))"

definition attemptLogin ::
  "('cert, 'opts) externals \<Rightarrow> Request \<Rightarrow> strmap \<Rightarrow> Response result \<times> trace" where
  "attemptLogin ext req data =
     (let timeReceived = time_Now ext;
          roleName = Get data ''role''
      in if roleName = [] then (Err '''role-name' is required'', []) else
     (let signature = Get data ''signature''
      in if signature = [] then (Err '''signature' is required'', []) else
     (let clientCertificate = Get data ''certificate''
      in if clientCertificate = [] then (Err '''certificate' is required'', []) else
     (let signingTimeRaw = Get data ''signing_time''
      in if signingTimeRaw = [] then (Err '''signing_time' is required'', []) else
     (case parseTime ext signingTimeRaw of
        Inl err \<Rightarrow> (Err err, [])
      | Inr signingTime \<Rightarrow>
     (case check_signing_time ext timeReceived signingTime signingTimeRaw of
        Some err \<Rightarrow> (Err err, [])
      | None \<Rightarrow>
          attemptLogin_verified ext req roleName signature clientCertificate signingTime))))))"

text \<open>
  \<^verbatim>\<open>operationLoginUpdate\<close>. \<open>Ok resp\<close> is Go's \<^verbatim>\<open>(resp, nil)\<close> and \<open>Err e\<close> is
  \<^verbatim>\<open>(nil, e)\<close>. \<^verbatim>\<open>u, _ := uuid.GenerateUUID()\<close> keeps the first component of what
  the generator returns and drops the second.
\<close>

definition operationLoginUpdate ::
  "('cert, 'opts) externals \<Rightarrow> Request \<Rightarrow> strmap \<Rightarrow> Response result \<times> trace" where
  "operationLoginUpdate ext req data =
     (case attemptLogin ext req data of
        (Err err, tr) \<Rightarrow>
          (let u = fst (GenerateUUID ext);
               tr1 = tr @ [Call_GenerateUUID];
               tr2 = tr1 @ [Call_logger_Error (''authentication failed, failure ID '' @ u @ '': '' @ err)]
           in (Ok (ErrorResponse (''authentication failed, failure ID '' @ u)), tr2))
      | (Panic, tr) \<Rightarrow> (Panic, tr)
      | (Ok resp, tr) \<Rightarrow> (Ok resp, tr))"

subsection \<open>Renewal\<close>

text \<open>
  \<^verbatim>\<open>pathLoginRenew\<close>. The response shares the request's \<^verbatim>\<open>Auth\<close>, so the three
  assignments update the credential the request carried.
\<close>

definition pathLoginRenew :: "('cert, 'opts) externals \<Rightarrow> Request \<Rightarrow> Response result \<times> trace" where
  "pathLoginRenew ext req =
     (case config ext (Storage req) of
        Inl err \<Rightarrow> (Err err, [])
      | Inr None \<Rightarrow> (Err ''no configuration is available for reaching the PCF API'', [])
      | Inr (Some cfg) \<Rightarrow>
     (let roleName = Get (Auth_Metadata (ReqAuth req)) ''role''
      in if roleName = [] then (Err ''unable to retrieve role from metadata during renewal'', []) else
     (case getRole ext (Storage req) roleName of
        Inl err \<Rightarrow> (Err err, [])
      | Inr None \<Rightarrow> (Err ''no matching role'', [])
      | Inr (Some role) \<Rightarrow>
     (let (pcfCert, err) =
            NewPCFCertificate ext
              (Get (Auth_Metadata (ReqAuth req)) ''instance_id'')
              (Get (Auth_Metadata (ReqAuth req)) ''org_id'')
              (Get (Auth_Metadata (ReqAuth req)) ''space_id'')
              (Get (Auth_Metadata (ReqAuth req)) ''app_id'')
              (Get (Auth_Metadata (ReqAuth req)) ''ip_address'')
      in case validate ext cfg role pcfCert (RemoteAddr req) [] of
           (Err err, tr) \<Rightarrow> (Err err, tr)
         | (Panic, tr) \<Rightarrow> (Panic, tr)
         | (Ok _, tr) \<Rightarrow>
             (Ok (AuthResponse
                ((ReqAuth req)
                   \<lparr>Auth_LeaseOptions :=
                      (Auth_LeaseOptions (ReqAuth req))
                        \<lparr>Lease_TTL := TTL role, Lease_MaxTTL := MaxTTL role\<rparr>,
                    Auth_Period := Period role\<rparr>)), tr)))))"

subsection \<open>The specification's reading of validate\<close>

text \<open>
  The specification describes the role-constraint matcher and the directory reconciliation
  as lists of steps run in a fixed order, the first failure aborting the rest. These
  definitions follow its words; the theorems below compare \<open>validate\<close> with them.
  A step is the call it makes and what came of it (\<open>None\<close>: passed).
\<close>

fun first_failure :: "(call \<times> error option) list \<Rightarrow> trace \<Rightarrow> error option \<times> trace" where
  "first_failure [] tr = (None, tr)"
| "first_failure ((c, outcome) # rest) tr =
     (case outcome of
        Some err \<Rightarrow> (Some err, tr @ [c])
      | None \<Rightarrow> first_failure rest (tr @ [c]))"

definition spec_membership_step :: "string \<Rightarrow> string \<Rightarrow> string list \<Rightarrow> call \<times> error option" where
  "spec_membership_step what v bound =
     (Call_meetsBoundConstraints v bound,
      if bound = [] \<or> v \<in> set bound then None
      else Some (what @ '' ID '' @ v @ '' doesn't match role constraints of '' @ fmt_strings bound))"

definition spec_constraint_checks ::
  "('cert, 'opts) externals \<Rightarrow> RoleEntry \<Rightarrow> PCFCertificate \<Rightarrow> string \<Rightarrow> (call \<times> error option) list" where
  "spec_constraint_checks ext role pcfCert remoteAddr =
     (if DisableIPMatching role then []
      else [(Call_matchesIPAddress,
             if IP_Equal (IPAddress pcfCert)
                  (net_ParseIP ext (takeWhile (\<lambda>c. c \<noteq> CHR ''/'') remoteAddr))
             then None else Some ''no matching IP address'')]) @
     [spec_membership_step ''instance'' (InstanceID pcfCert) (BoundInstanceIDs role),
      spec_membership_step ''app'' (AppID pcfCert) (BoundAppIDs role),
      spec_membership_step ''org'' (OrgID pcfCert) (BoundOrgIDs role),
      spec_membership_step ''space'' (SpaceID pcfCert) (BoundSpaceIDs role),
      (Call_RemoteAddrIsOk,
       if RemoteAddrIsOk ext remoteAddr (BoundCIDRs role) then None
       else Some (''remote address '' @ remoteAddr @ '' doesn't match role constraints of '' @
                  fmt_strings (BoundCIDRs role)))]"

text \<open>
  The directory reconciliation of the specification: four lookups, each followed by the
  comparisons the specification lists for it. A lookup that returns an error fails with
  that error; a returned field that differs from the certificate's fails the step; the
  application must besides have a live instance.
\<close>

fun first_mismatch :: "(string \<times> string \<times> string) list \<Rightarrow> error option" where
  "first_mismatch [] = None"
| "first_mismatch ((what, claimed, returned) # rest) =
     (if returned = claimed then first_mismatch rest
      else Some (''cert '' @ what @ '' ID '' @ claimed @
                 '' doesn't match API's expected one of '' @ returned))"

definition spec_lookup :: "error + 'r \<Rightarrow> ('r \<Rightarrow> error option) \<Rightarrow> error option" where
  "spec_lookup found requirement =
     (case found of Inl err \<Rightarrow> Some err | Inr r \<Rightarrow> requirement r)"

definition spec_directory_lookups :: "Client \<Rightarrow> PCFCertificate \<Rightarrow> (call \<times> error option) list" where
  "spec_directory_lookups client pcfCert =
     [(Call_GetServiceInstanceByGuid (InstanceID pcfCert),
       spec_lookup (GetServiceInstanceByGuid client (InstanceID pcfCert))
         (\<lambda>si. first_mismatch
                 [(''instance'', InstanceID pcfCert, SI_Guid si),
                  (''space'', SpaceID pcfCert, SI_SpaceGuid si)])),
      (Call_AppByGuid (AppID pcfCert),
       spec_lookup (AppByGuid client (AppID pcfCert))
         (\<lambda>app. case first_mismatch
                        [(''app'', AppID pcfCert, App_Guid app),
                         (''space'', SpaceID pcfCert, App_SpaceGuid app)] of
                   Some err \<Rightarrow> Some err
                 | None \<Rightarrow>
                     if 0 < App_Instances app then None
                     else Some ''app doesn't have any live instances'')),
      (Call_GetOrgByGuid (OrgID pcfCert),
       spec_lookup (GetOrgByGuid client (OrgID pcfCert))
         (\<lambda>org. first_mismatch [(''org'', OrgID pcfCert, Org_Guid org)])),
      (Call_GetSpaceByGuid (SpaceID pcfCert),
       spec_lookup (GetSpaceByGuid client (SpaceID pcfCert))
         (\<lambda>space. first_mismatch
                    [(''space'', SpaceID pcfCert, Space_Guid space),
                     (''org'', OrgID pcfCert, Space_OrganizationGuid space)]))]"

subsection \<open>An example deployment\<close>

text \<open>
  One instance of the collaborators, used to run the handlers on concrete requests: an
  application instance at 10.0.0.5, a role bound to its application and organisation and
  to the network 10.0.0.0/24, and a CF API that knows the instance, the application, the
  organisation and the space.
\<close>

definition demo_cert :: PCFCertificate where
  "demo_cert =
     \<lparr>InstanceID = ''instance-1'', OrgID = ''org-1'', SpaceID = ''space-1'', AppID = ''app-1'',
      IPAddress = [10, 0, 0, 5]\<rparr>"

definition demo_role :: RoleEntry where
  "demo_role =
     \<lparr>BoundAppIDs = [''app-1''], BoundSpaceIDs = [], BoundOrgIDs = [''org-1'', ''org-2''],
      BoundInstanceIDs = [], BoundCIDRs = [''10.0.0.0/24''], Policies = [''default''],
      DisableIPMatching = False, TTL = 3600000000000, MaxTTL = 7200000000000, Period = 0\<rparr>"

definition demo_cfg :: Configuration where
  "demo_cfg = \<lparr>PCFAPIAddr = ''https://api.sys.example.com'', PCFUsername = ''vault'', PCFPassword = ''pa55''\<rparr>"

definition demo_client :: Client where
  "demo_client =
     \<lparr>GetServiceInstanceByGuid =
        (\<lambda>g. if g = ''instance-1'' then Inr \<lparr>SI_Guid = ''instance-1'', SI_SpaceGuid = ''space-1''\<rparr>
              else Inl ''service instance not found''),
      AppByGuid =
        (\<lambda>g. if g = ''app-1''
              then Inr \<lparr>App_Guid = ''app-1'', App_SpaceGuid = ''space-1'', App_Instances = 2\<rparr>
              else Inl ''app not found''),
      GetOrgByGuid =
        (\<lambda>g. if g = ''org-1'' then Inr \<lparr>Org_Guid = ''org-1''\<rparr> else Inl ''org not found''),
      GetSpaceByGuid =
        (\<lambda>g. if g = ''space-1''
              then Inr \<lparr>Space_Guid = ''space-1'', Space_OrganizationGuid = ''org-1''\<rparr>
              else Inl ''space not found'')\<rparr>"

definition demo_ParseIP :: "string \<Rightarrow> IP" where
  "demo_ParseIP s =
     (if s = ''10.0.0.5'' then IPv4 10 0 0 5
      else if s = ''10.0.0.6'' then IPv4 10 0 0 6
      else if s = ''192.168.1.1'' then IPv4 192 168 1 1
      else [])"

text \<open>The signing time \<^verbatim>\<open>2019-05-20T22:08:40Z\<close> is 1558390120 seconds after the epoch.\<close>

definition demo_ext :: "(unit, unit) externals" where
  "demo_ext =
     \<lparr>time_Now = 1558390130000000000,
      time_Parse =
        (\<lambda>layout v. if layout = ''2006-01-02T15:04:05Z'' \<and> v = ''2019-05-20T22:08:40Z''
                     then Inr 1558390120000000000 else Inl ''parsing time: bad layout''),
      TimeFormat = ''2006-01-02T15:04:05Z'',
      BashTimeFormat = ''Mon Jan 2 15:04:05 MST 2006'',
      Time_String = (\<lambda>t. ''<time>''),
      signatures_Verify = (\<lambda>sig d. if sig = ''good-signature'' then Inr () else Inl ''no matching certificate''),
      config = (\<lambda>st. Inr (Some demo_cfg)),
      VerifyOpts = (\<lambda>c. Inr ()),
      x509_Verify = (\<lambda>c opts. None),
      NewPCFCertificateFromx509 = (\<lambda>c. Inr demo_cert),
      NewPCFCertificate =
        (\<lambda>instanceID orgID spaceID appID ipAddress.
           if instanceID = [] then (None, Some ''no instance ID on given certificate'')
           else (Some \<lparr>InstanceID = instanceID, OrgID = orgID, SpaceID = spaceID, AppID = appID,
                       IPAddress = demo_ParseIP ipAddress\<rparr>, None)),
      getRole = (\<lambda>st name. if name = ''my-role'' then Inr (Some demo_role) else Inr None),
      net_ParseIP = demo_ParseIP,
      IP_String = (\<lambda>ip. ''10.0.0.5''),
      RemoteAddrIsOk = (\<lambda>addr cidrs. cidrs = [] \<or> (''10.0.0.0/24'' \<in> set cidrs \<and> take 7 addr = ''10.0.0.'')),
      cfclient_NewClient = (\<lambda>c. Inr demo_client),
      GenerateUUID = (''6f2b1c9e-0d3a-4b57-9c1e-2a7d4e5f6a7b'', None)\<rparr>"

definition demo_data :: strmap where
  "demo_data =
     [''role'' \<mapsto> ''my-role'', ''certificate'' \<mapsto> ''-----BEGIN CERTIFICATE-----'',
      ''signing_time'' \<mapsto> ''2019-05-20T22:08:40Z'', ''signature'' \<mapsto> ''good-signature'']"

definition demo_auth :: Auth where
  "demo_auth =
     \<lparr>Auth_LeaseOptions = \<lparr>Lease_TTL = 60000000000, Lease_MaxTTL = 120000000000, Lease_Renewable = True\<rparr>,
      Auth_DisplayName = ''instance-1'',
      Auth_Policies = [''issued-policy''],
      Auth_Metadata =
        [''role'' \<mapsto> ''my-role'', ''instance_id'' \<mapsto> ''instance-1'', ''org_id'' \<mapsto> ''org-1'',
         ''app_id'' \<mapsto> ''app-1'', ''space_id'' \<mapsto> ''space-1'', ''ip_address'' \<mapsto> ''10.0.0.5''],
      Auth_Period = 5,
      Auth_Alias = Some \<lparr>Alias_Name = ''app-1''\<rparr>,
      Auth_BoundCIDRs = [''10.0.0.0/24'']\<rparr>"

definition demo_req :: Request where
  "demo_req = \<lparr>Storage = Map.empty, RemoteAddr = ''10.0.0.5/32'', ReqAuth = demo_auth\<rparr>"


section \<open>Properties\<close>

lemmas demo_defs = demo_cert_def demo_role_def demo_cfg_def demo_client_def demo_ParseIP_def
  demo_ext_def demo_data_def demo_auth_def demo_req_def

lemmas ip_defs = IP_Equal_def IPv4_def v4InV6Prefix_def

subsection \<open>Bound constraints\<close>

lemma constraint_loop_mem: "constraint_loop v S = (v \<in> set S)"
  by (induction S) auto

lemma meetsBoundConstraints_iff: "meetsBoundConstraints v S = (S = [] \<or> v \<in> set S)"
  by (simp add: meetsBoundConstraints_def constraint_loop_mem)

text \<open>
  C7. With no constraints every value passes; with a non-empty list of constraints a value
  passes exactly when it is one of them, compared as strings.
\<close>

theorem meetsBoundConstraints_membership:
  "meetsBoundConstraints v [] \<and> (S \<noteq> [] \<longrightarrow> meetsBoundConstraints v S = (v \<in> set S))"
  by (simp add: meetsBoundConstraints_def constraint_loop_mem)

theorem meetsBoundConstraints_membership_witness:
  "meetsBoundConstraints ''app-999'' []
   \<and> [''app-123'', ''app-456''] \<noteq> []
   \<and> meetsBoundConstraints ''app-456'' [''app-123'', ''app-456'']
   \<and> \<not> meetsBoundConstraints ''app-999'' [''app-123'', ''app-456'']
   \<and> \<not> meetsBoundConstraints ''app-12'' [''app-123'', ''app-456'']"
  using meetsBoundConstraints_membership [of "''app-999''" "[''app-123'', ''app-456'']"]
        meetsBoundConstraints_membership [of "''app-456''" "[''app-123'', ''app-456'']"]
        meetsBoundConstraints_membership [of "''app-12''" "[''app-123'', ''app-456'']"]
  by simp

subsection \<open>IP matching\<close>

lemma Split_slash_nonempty: "Split_slash s \<noteq> []"
  by (induction s) (auto split: list.splits)

lemma Split_slash_first: "Split_slash s ! 0 = takeWhile (\<lambda>c. c \<noteq> CHR ''/'') s"
  by (induction s) (auto split: list.splits simp: Split_slash_nonempty)

lemma matchesIPAddress_eq:
  "matchesIPAddress P remoteAddr certIP =
     IP_Equal certIP (P (takeWhile (\<lambda>c. c \<noteq> CHR ''/'') remoteAddr))"
  by (simp add: matchesIPAddress_def Split_slash_first)

lemma takeWhile_before_slash:
  "CHR ''/'' \<notin> set a \<Longrightarrow> takeWhile (\<lambda>c. c \<noteq> CHR ''/'') (a @ CHR ''/'' # msk) = a"
  by (induction a) auto

lemma takeWhile_no_slash:
  "CHR ''/'' \<notin> set a \<Longrightarrow> takeWhile (\<lambda>c. c \<noteq> CHR ''/'') a = a"
  by (induction a) auto

lemma matchesIPAddress_mask:
  "CHR ''/'' \<notin> set a \<Longrightarrow>
     matchesIPAddress P (a @ ''/'' @ msk) certIP = matchesIPAddress P a certIP"
  by (simp add: matchesIPAddress_eq takeWhile_before_slash takeWhile_no_slash)

text \<open>
  C8. The remote address is cut at its first slash and what is left is parsed and compared
  with the certificate's address by \<^verbatim>\<open>net.IP.Equal\<close>; the mask plays no part in the
  result. Whenever the parser reads the dotted quads as Go does, \<open>10.0.0.5/32\<close> matches the
  certificate address 10.0.0.5 (in its 4-byte or its 16-byte form) and \<open>10.0.0.6/32\<close> does
  not; neither does \<open>10.0.0.6/24\<close>, although that network contains 10.0.0.5.
\<close>

theorem matchesIPAddress_exact:
  "matchesIPAddress P remoteAddr certIP =
     IP_Equal certIP (P (takeWhile (\<lambda>c. c \<noteq> CHR ''/'') remoteAddr))
   \<and> (CHR ''/'' \<notin> set a \<longrightarrow>
        matchesIPAddress P (a @ ''/'' @ msk) certIP = matchesIPAddress P a certIP)
   \<and> (P ''10.0.0.5'' = IPv4 10 0 0 5 \<longrightarrow>
        matchesIPAddress P ''10.0.0.5/32'' [10, 0, 0, 5]
        \<and> matchesIPAddress P ''10.0.0.5/32'' (IPv4 10 0 0 5))
   \<and> (P ''10.0.0.6'' = IPv4 10 0 0 6 \<longrightarrow>
        \<not> matchesIPAddress P ''10.0.0.6/32'' [10, 0, 0, 5]
        \<and> \<not> matchesIPAddress P ''10.0.0.6/32'' (IPv4 10 0 0 5)
        \<and> \<not> matchesIPAddress P ''10.0.0.6/24'' [10, 0, 0, 5])"
  using matchesIPAddress_mask [of a P msk certIP]
  by (simp add: matchesIPAddress_eq ip_defs)

theorem matchesIPAddress_exact_witness:
  "demo_ParseIP ''10.0.0.5'' = IPv4 10 0 0 5
   \<and> demo_ParseIP ''10.0.0.6'' = IPv4 10 0 0 6
   \<and> CHR ''/'' \<notin> set ''10.0.0.5''
   \<and> matchesIPAddress demo_ParseIP ''10.0.0.5/32'' [10, 0, 0, 5]
   \<and> matchesIPAddress demo_ParseIP ''10.0.0.5/32'' (IPv4 10 0 0 5)
   \<and> matchesIPAddress demo_ParseIP (''10.0.0.5'' @ ''/'' @ ''8'') [10, 0, 0, 5]
   \<and> \<not> matchesIPAddress demo_ParseIP ''10.0.0.6/32'' [10, 0, 0, 5]
   \<and> \<not> matchesIPAddress demo_ParseIP ''10.0.0.6/32'' (IPv4 10 0 0 5)
   \<and> \<not> matchesIPAddress demo_ParseIP ''10.0.0.6/24'' [10, 0, 0, 5]"
  using matchesIPAddress_exact [of demo_ParseIP "''10.0.0.5''" "[10, 0, 0, 5]" "''10.0.0.5''" "''8''"]
  by (simp add: demo_ParseIP_def ip_defs)

subsection \<open>The signing-time window\<close>

lemma too_old_suffix: "suffix raw (too_old ext t recv raw)"
  unfolding too_old_def by (intro suffix_appendI suffix_order.refl)

lemma too_far_suffix: "suffix raw (too_far_in_future ext t recv raw)"
  unfolding too_far_in_future_def by (intro suffix_appendI suffix_order.refl)

lemma reasons_distinct: "too_old ext t recv raw \<noteq> too_far_in_future ext t' recv' raw'"
  by (simp add: too_old_def too_far_in_future_def)

lemma check_signing_time_cases:
  "check_signing_time ext recv t raw =
     (if t < recv - 300000000000 then Some (too_old ext t recv raw)
      else if recv + 30000000000 < t then Some (too_far_in_future ext t recv raw)
      else None)"
  by (simp add: check_signing_time_def Add_def Before_def After_def Minute_def Second_def)

lemma attemptLogin_parsed:
  assumes "Get data ''role'' \<noteq> []" "Get data ''signature'' \<noteq> []" "Get data ''certificate'' \<noteq> []"
    "Get data ''signing_time'' \<noteq> []" "parseTime ext (Get data ''signing_time'') = Inr t"
  shows "attemptLogin ext req data =
     (case check_signing_time ext (time_Now ext) t (Get data ''signing_time'') of
        Some err \<Rightarrow> (Err err, [])
      | None \<Rightarrow> attemptLogin_verified ext req (Get data ''role'') (Get data ''signature'')
                  (Get data ''certificate'') t)"
  using assms by (simp add: attemptLogin_def)

text \<open>
  C1. Times are in nanoseconds: five minutes are 300000000000 and thirty seconds are
  30000000000. The window check passes exactly when the parsed signing time \<open>t\<close> lies
  between the time of receipt minus five minutes and the time of receipt plus thirty
  seconds, both bounds included. An earlier \<open>t\<close> gives the reason "request is too old",
  a later one the reason "request is too far in the future"; the two reasons are never the
  same text and each ends with the raw signing time. For a login request whose four fields
  are present and whose signing time parses to \<open>t\<close>, \<^verbatim>\<open>attemptLogin\<close> returns the
  reason of the check when it fails and goes on to the signature check when it passes.
\<close>

theorem signing_time_window:
  "(check_signing_time ext recv t raw = None)
     = (recv - 300000000000 \<le> t \<and> t \<le> recv + 30000000000)
   \<and> (t < recv - 300000000000 \<longrightarrow>
        check_signing_time ext recv t raw = Some (too_old ext t recv raw))
   \<and> (recv + 30000000000 < t \<longrightarrow>
        check_signing_time ext recv t raw = Some (too_far_in_future ext t recv raw))
   \<and> too_old ext t recv raw \<noteq> too_far_in_future ext t' recv' raw'
   \<and> suffix raw (too_old ext t recv raw)
   \<and> suffix raw (too_far_in_future ext t recv raw)
   \<and> (Get data ''role'' \<noteq> [] \<and> Get data ''signature'' \<noteq> [] \<and> Get data ''certificate'' \<noteq> []
        \<and> Get data ''signing_time'' = raw \<and> raw \<noteq> [] \<and> parseTime ext raw = Inr t \<longrightarrow>
      attemptLogin ext req data =
        (case check_signing_time ext (time_Now ext) t raw of
           Some err \<Rightarrow> (Err err, [])
         | None \<Rightarrow> attemptLogin_verified ext req (Get data ''role'') (Get data ''signature'')
                     (Get data ''certificate'') t))"
  using attemptLogin_parsed [of data ext t req]
  by (auto simp: check_signing_time_cases too_old_suffix too_far_suffix reasons_distinct)

text \<open>
  The bounds themselves pass, one nanosecond beyond either fails, and the example request,
  signed at 22:08:40, is refused as too old when it is received six minutes later.
\<close>

theorem signing_time_window_witness:
  "check_signing_time demo_ext 1558390130000000000 1558389830000000000 ''raw'' = None
   \<and> check_signing_time demo_ext 1558390130000000000 1558390160000000000 ''raw'' = None
   \<and> check_signing_time demo_ext 1558390130000000000 1558389829999999999 ''raw''
       = Some (too_old demo_ext 1558389829999999999 1558390130000000000 ''raw'')
   \<and> check_signing_time demo_ext 1558390130000000000 1558390160000000001 ''raw''
       = Some (too_far_in_future demo_ext 1558390160000000001 1558390130000000000 ''raw'')
   \<and> Get demo_data ''role'' \<noteq> [] \<and> Get demo_data ''signature'' \<noteq> []
   \<and> Get demo_data ''certificate'' \<noteq> []
   \<and> Get demo_data ''signing_time'' = ''2019-05-20T22:08:40Z''
   \<and> parseTime (demo_ext\<lparr>time_Now := 1558390480000000000\<rparr>) ''2019-05-20T22:08:40Z''
       = Inr 1558390120000000000
   \<and> attemptLogin (demo_ext\<lparr>time_Now := 1558390480000000000\<rparr>) demo_req demo_data
       = (Err (too_old (demo_ext\<lparr>time_Now := 1558390480000000000\<rparr>) 1558390120000000000
                 1558390480000000000 ''2019-05-20T22:08:40Z''), [])"
proof -
  let ?late = "demo_ext\<lparr>time_Now := 1558390480000000000\<rparr>"
  have fields: "Get demo_data ''role'' \<noteq> [] \<and> Get demo_data ''signature'' \<noteq> []
      \<and> Get demo_data ''certificate'' \<noteq> []
      \<and> Get demo_data ''signing_time'' = ''2019-05-20T22:08:40Z''"
    by (simp add: Get_def demo_data_def)
  have parsed: "parseTime ?late ''2019-05-20T22:08:40Z'' = Inr 1558390120000000000"
    by (simp add: parseTime_def demo_ext_def)
  have now: "time_Now ?late = 1558390480000000000"
    by simp
  show ?thesis
    using fields parsed now
      signing_time_window [of demo_ext 1558390130000000000 1558389830000000000 "''raw''"]
      signing_time_window [of demo_ext 1558390130000000000 1558390160000000000 "''raw''"]
      signing_time_window [of demo_ext 1558390130000000000 1558389829999999999 "''raw''"]
      signing_time_window [of demo_ext 1558390130000000000 1558390160000000001 "''raw''"]
      signing_time_window [of ?late 1558390480000000000 1558390120000000000
        "''2019-05-20T22:08:40Z''" _ _ _ demo_data demo_req]
    by simp
qed


subsection \<open>The CF API lookups of validate\<close>

lemma check_service_instance_spec:
  "check_service_instance client pcfCert =
     spec_lookup (GetServiceInstanceByGuid client (InstanceID pcfCert))
       (\<lambda>si. first_mismatch
               [(''instance'', InstanceID pcfCert, SI_Guid si),
                (''space'', SpaceID pcfCert, SI_SpaceGuid si)])"
  by (simp add: check_service_instance_def spec_lookup_def split: sum.splits)

lemma check_app_spec:
  "check_app client pcfCert =
     spec_lookup (AppByGuid client (AppID pcfCert))
       (\<lambda>app. case first_mismatch
                      [(''app'', AppID pcfCert, App_Guid app),
                       (''space'', SpaceID pcfCert, App_SpaceGuid app)] of
                 Some err \<Rightarrow> Some err
               | None \<Rightarrow>
                   if 0 < App_Instances app then None
                   else Some ''app doesn't have any live instances'')"
  by (simp add: check_app_def spec_lookup_def split: sum.splits)

lemma check_org_spec:
  "check_org client pcfCert =
     spec_lookup (GetOrgByGuid client (OrgID pcfCert))
       (\<lambda>org. first_mismatch [(''org'', OrgID pcfCert, Org_Guid org)])"
  by (simp add: check_org_def spec_lookup_def split: sum.splits)

lemma check_space_spec:
  "check_space client pcfCert =
     spec_lookup (GetSpaceByGuid client (SpaceID pcfCert))
       (\<lambda>space. first_mismatch
                  [(''space'', SpaceID pcfCert, Space_Guid space),
                   (''org'', OrgID pcfCert, Space_OrganizationGuid space)])"
  by (simp add: check_space_def spec_lookup_def split: sum.splits)

lemma spec_directory_lookups_blocks:
  "spec_directory_lookups client pcfCert =
     [(Call_GetServiceInstanceByGuid (InstanceID pcfCert), check_service_instance client pcfCert),
      (Call_AppByGuid (AppID pcfCert), check_app client pcfCert),
      (Call_GetOrgByGuid (OrgID pcfCert), check_org client pcfCert),
      (Call_GetSpaceByGuid (SpaceID pcfCert), check_space client pcfCert)]"
  by (simp only: spec_directory_lookups_def check_service_instance_spec check_app_spec
        check_org_spec check_space_spec)

lemma validate_api_steps:
  assumes "cfclient_NewClient ext
             \<lparr>ApiAddress = PCFAPIAddr cfg, Username = PCFUsername cfg, Password = PCFPassword cfg\<rparr>
           = Inr client"
  shows "validate_api ext cfg pcfCert tr0 =
           (case first_failure (spec_directory_lookups client pcfCert) (tr0 @ [Call_NewClient]) of
              (Some err, tr) \<Rightarrow> (Err err, tr)
            | (None, tr) \<Rightarrow> (Ok (), tr))"
  using assms
  by (simp add: validate_api_def spec_directory_lookups_blocks split: option.splits)

lemma validate_api_no_client:
  assumes "cfclient_NewClient ext
             \<lparr>ApiAddress = PCFAPIAddr cfg, Username = PCFUsername cfg, Password = PCFPassword cfg\<rparr>
           = Inl err"
  shows "validate_api ext cfg pcfCert tr0 = (Err err, tr0 @ [Call_NewClient])"
  using assms by (simp add: validate_api_def)

lemma check_service_instance_passes:
  "(check_service_instance client pcfCert = None) =
     (\<exists>si. GetServiceInstanceByGuid client (InstanceID pcfCert) = Inr si
           \<and> SI_Guid si = InstanceID pcfCert \<and> SI_SpaceGuid si = SpaceID pcfCert)"
  by (auto simp: check_service_instance_def split: sum.splits)

lemma check_org_passes:
  "(check_org client pcfCert = None) =
     (\<exists>org. GetOrgByGuid client (OrgID pcfCert) = Inr org \<and> Org_Guid org = OrgID pcfCert)"
  by (auto simp: check_org_def split: sum.splits)

lemma check_space_passes:
  "(check_space client pcfCert = None) =
     (\<exists>space. GetSpaceByGuid client (SpaceID pcfCert) = Inr space
           \<and> Space_Guid space = SpaceID pcfCert \<and> Space_OrganizationGuid space = OrgID pcfCert)"
  by (auto simp: check_space_def split: sum.splits)

lemma validate_api_ok_blocks:
  "(validate_api ext cfg pcfCert tr0 = (Ok (), tr)) =
     (\<exists>client.
        cfclient_NewClient ext
          \<lparr>ApiAddress = PCFAPIAddr cfg, Username = PCFUsername cfg, Password = PCFPassword cfg\<rparr>
          = Inr client
      \<and> check_service_instance client pcfCert = None
      \<and> check_app client pcfCert = None
      \<and> check_org client pcfCert = None
      \<and> check_space client pcfCert = None
      \<and> tr = tr0 @ [Call_NewClient, Call_GetServiceInstanceByGuid (InstanceID pcfCert),
                    Call_AppByGuid (AppID pcfCert), Call_GetOrgByGuid (OrgID pcfCert),
                    Call_GetSpaceByGuid (SpaceID pcfCert)])"
  by (auto simp: validate_api_def Let_def split: sum.splits option.splits)

lemma validate_api_ok_trace:
  "validate_api ext cfg pcfCert tr0 = (Ok (), tr) \<Longrightarrow>
     tr = tr0 @ [Call_NewClient, Call_GetServiceInstanceByGuid (InstanceID pcfCert),
                 Call_AppByGuid (AppID pcfCert), Call_GetOrgByGuid (OrgID pcfCert),
                 Call_GetSpaceByGuid (SpaceID pcfCert)]"
  by (auto simp: validate_api_def Let_def split: sum.splits option.splits)

lemma validate_api_trace_prefix:
  "\<exists>n. snd (validate_api ext cfg pcfCert tr0) =
     tr0 @ Call_NewClient # take n [Call_GetServiceInstanceByGuid (InstanceID pcfCert),
                 Call_AppByGuid (AppID pcfCert), Call_GetOrgByGuid (OrgID pcfCert),
                 Call_GetSpaceByGuid (SpaceID pcfCert)]"
proof (cases "cfclient_NewClient ext
             \<lparr>ApiAddress = PCFAPIAddr cfg, Username = PCFUsername cfg, Password = PCFPassword cfg\<rparr>")
  case (Inl e)
  then have "snd (validate_api ext cfg pcfCert tr0) = tr0 @ [Call_NewClient]"
    by (simp add: validate_api_def)
  then show ?thesis by (intro exI[of _ 0]) simp
next
  case (Inr client)
  consider (instance_fails) "check_service_instance client pcfCert \<noteq> None"
    | (app_fails) "check_service_instance client pcfCert = None" "check_app client pcfCert \<noteq> None"
    | (org_fails) "check_service_instance client pcfCert = None" "check_app client pcfCert = None"
          "check_org client pcfCert \<noteq> None"
    | (space_reached) "check_service_instance client pcfCert = None"
          "check_app client pcfCert = None" "check_org client pcfCert = None"
    by blast
  then show ?thesis
  proof cases
    case instance_fails
    with Inr show ?thesis by (intro exI[of _ 1]) (auto simp: validate_api_def Let_def)
  next
    case app_fails
    with Inr show ?thesis by (intro exI[of _ 2]) (auto simp: validate_api_def Let_def)
  next
    case org_fails
    with Inr show ?thesis by (intro exI[of _ 3]) (auto simp: validate_api_def Let_def)
  next
    case space_reached
    with Inr show ?thesis
      by (intro exI[of _ 4]) (auto simp: validate_api_def Let_def split: option.splits)
  qed
qed

lemma check_app_passes:
  "(check_app client pcfCert = None) =
     (\<exists>app. AppByGuid client (AppID pcfCert) = Inr app \<and> App_Guid app = AppID pcfCert
            \<and> App_SpaceGuid app = SpaceID pcfCert \<and> 0 < App_Instances app)"
  by (auto simp: check_app_def split: sum.splits)

lemma validate_api_no_panic: "fst (validate_api ext cfg pcfCert tr0) \<noteq> Panic"
  by (simp add: validate_api_def Let_def split: sum.splits option.splits)

lemma validate_api_trace_set:
  "set (snd (validate_api ext cfg pcfCert tr0)) \<subseteq>
     set tr0 \<union> {Call_NewClient, Call_GetServiceInstanceByGuid (InstanceID pcfCert),
                Call_AppByGuid (AppID pcfCert), Call_GetOrgByGuid (OrgID pcfCert),
                Call_GetSpaceByGuid (SpaceID pcfCert)}"
proof -
  obtain n where "snd (validate_api ext cfg pcfCert tr0) =
     tr0 @ Call_NewClient # take n [Call_GetServiceInstanceByGuid (InstanceID pcfCert),
                 Call_AppByGuid (AppID pcfCert), Call_GetOrgByGuid (OrgID pcfCert),
                 Call_GetSpaceByGuid (SpaceID pcfCert)]"
    using validate_api_trace_prefix by blast
  then show ?thesis
    by (auto dest: in_set_takeD)
qed

lemma validate_api_trace_extends: "set tr0 \<subseteq> set (snd (validate_api ext cfg pcfCert tr0))"
  using validate_api_trace_prefix [of ext cfg pcfCert tr0] by auto

lemma validate_api_ok_lookups:
  "(validate_api ext cfg pcfCert tr0 = (Ok (), tr)) =
     (\<exists>client si app org space.
        cfclient_NewClient ext
          \<lparr>ApiAddress = PCFAPIAddr cfg, Username = PCFUsername cfg, Password = PCFPassword cfg\<rparr>
          = Inr client
      \<and> GetServiceInstanceByGuid client (InstanceID pcfCert) = Inr si
      \<and> SI_Guid si = InstanceID pcfCert \<and> SI_SpaceGuid si = SpaceID pcfCert
      \<and> AppByGuid client (AppID pcfCert) = Inr app
      \<and> App_Guid app = AppID pcfCert \<and> App_SpaceGuid app = SpaceID pcfCert
      \<and> 0 < App_Instances app
      \<and> GetOrgByGuid client (OrgID pcfCert) = Inr org \<and> Org_Guid org = OrgID pcfCert
      \<and> GetSpaceByGuid client (SpaceID pcfCert) = Inr space
      \<and> Space_Guid space = SpaceID pcfCert \<and> Space_OrganizationGuid space = OrgID pcfCert
      \<and> tr = tr0 @ [Call_NewClient, Call_GetServiceInstanceByGuid (InstanceID pcfCert),
                    Call_AppByGuid (AppID pcfCert), Call_GetOrgByGuid (OrgID pcfCert),
                    Call_GetSpaceByGuid (SpaceID pcfCert)])"
  unfolding validate_api_ok_blocks check_service_instance_passes check_app_passes
    check_org_passes check_space_passes
  by (intro iffI; elim exE conjE; intro exI conjI; assumption)

text \<open>
  C5. When the client cannot be built the reconciliation ends with that error, no lookup
  made. Once it is built, the reconciliation is the specification's list of lookups run in
  order: service instance, application, organisation, space. A lookup that returns an error
  ends the reconciliation with that error; a returned record that differs from the
  certificate in a field the specification names ends it with the mismatch; in both
  cases no later lookup is made. The reconciliation succeeds exactly when each of the four
  lookups returns a record and all fields agree, the application having more than 0
  instances; it has then made exactly the four lookups in this order, and every
  reconciliation has made the first few of them. The application block passes exactly when
  the lookup returns an application whose GUID is the certificate's application ID, whose
  space GUID is the certificate's space ID, and whose instance count is greater than 0.
\<close>

theorem directory_lookups_in_order:
  "(cfclient_NewClient ext
      \<lparr>ApiAddress = PCFAPIAddr cfg, Username = PCFUsername cfg, Password = PCFPassword cfg\<rparr>
      = Inr client \<longrightarrow>
    validate_api ext cfg pcfCert tr0 =
      (case first_failure (spec_directory_lookups client pcfCert) (tr0 @ [Call_NewClient]) of
         (Some err, tr) \<Rightarrow> (Err err, tr)
       | (None, tr) \<Rightarrow> (Ok (), tr)))
   \<and> (cfclient_NewClient ext
      \<lparr>ApiAddress = PCFAPIAddr cfg, Username = PCFUsername cfg, Password = PCFPassword cfg\<rparr>
      = Inl err \<longrightarrow>
    validate_api ext cfg pcfCert tr0 = (Err err, tr0 @ [Call_NewClient]))
   \<and> (validate_api ext cfg pcfCert tr0 = (Ok (), tr)) =
       (\<exists>client si app org space.
          cfclient_NewClient ext
            \<lparr>ApiAddress = PCFAPIAddr cfg, Username = PCFUsername cfg, Password = PCFPassword cfg\<rparr>
            = Inr client
        \<and> GetServiceInstanceByGuid client (InstanceID pcfCert) = Inr si
        \<and> SI_Guid si = InstanceID pcfCert \<and> SI_SpaceGuid si = SpaceID pcfCert
        \<and> AppByGuid client (AppID pcfCert) = Inr app
        \<and> App_Guid app = AppID pcfCert \<and> App_SpaceGuid app = SpaceID pcfCert
        \<and> 0 < App_Instances app
        \<and> GetOrgByGuid client (OrgID pcfCert) = Inr org \<and> Org_Guid org = OrgID pcfCert
        \<and> GetSpaceByGuid client (SpaceID pcfCert) = Inr space
        \<and> Space_Guid space = SpaceID pcfCert \<and> Space_OrganizationGuid space = OrgID pcfCert
        \<and> tr = tr0 @ [Call_NewClient, Call_GetServiceInstanceByGuid (InstanceID pcfCert),
                      Call_AppByGuid (AppID pcfCert), Call_GetOrgByGuid (OrgID pcfCert),
                      Call_GetSpaceByGuid (SpaceID pcfCert)])
   \<and> (validate_api ext cfg pcfCert tr0 = (Ok (), tr) \<longrightarrow>
        tr = tr0 @ [Call_NewClient, Call_GetServiceInstanceByGuid (InstanceID pcfCert),
                    Call_AppByGuid (AppID pcfCert), Call_GetOrgByGuid (OrgID pcfCert),
                    Call_GetSpaceByGuid (SpaceID pcfCert)])
   \<and> (\<exists>n. snd (validate_api ext cfg pcfCert tr0) =
          tr0 @ Call_NewClient #
            take n [Call_GetServiceInstanceByGuid (InstanceID pcfCert),
                    Call_AppByGuid (AppID pcfCert), Call_GetOrgByGuid (OrgID pcfCert),
                    Call_GetSpaceByGuid (SpaceID pcfCert)])
   \<and> (check_app client pcfCert = None) =
       (\<exists>app. AppByGuid client (AppID pcfCert) = Inr app \<and> App_Guid app = AppID pcfCert
              \<and> App_SpaceGuid app = SpaceID pcfCert \<and> 0 < App_Instances app)"
proof (intro conjI impI)
  assume "cfclient_NewClient ext
      \<lparr>ApiAddress = PCFAPIAddr cfg, Username = PCFUsername cfg, Password = PCFPassword cfg\<rparr>
      = Inr client"
  then show "validate_api ext cfg pcfCert tr0 =
      (case first_failure (spec_directory_lookups client pcfCert) (tr0 @ [Call_NewClient]) of
         (Some err, tr) \<Rightarrow> (Err err, tr)
       | (None, tr) \<Rightarrow> (Ok (), tr))"
    by (rule validate_api_steps)
next
  assume "cfclient_NewClient ext
      \<lparr>ApiAddress = PCFAPIAddr cfg, Username = PCFUsername cfg, Password = PCFPassword cfg\<rparr>
      = Inl err"
  then show "validate_api ext cfg pcfCert tr0 = (Err err, tr0 @ [Call_NewClient])"
    by (rule validate_api_no_client)
next
  show "(validate_api ext cfg pcfCert tr0 = (Ok (), tr)) =
       (\<exists>client si app org space.
          cfclient_NewClient ext
            \<lparr>ApiAddress = PCFAPIAddr cfg, Username = PCFUsername cfg, Password = PCFPassword cfg\<rparr>
            = Inr client
        \<and> GetServiceInstanceByGuid client (InstanceID pcfCert) = Inr si
        \<and> SI_Guid si = InstanceID pcfCert \<and> SI_SpaceGuid si = SpaceID pcfCert
        \<and> AppByGuid client (AppID pcfCert) = Inr app
        \<and> App_Guid app = AppID pcfCert \<and> App_SpaceGuid app = SpaceID pcfCert
        \<and> 0 < App_Instances app
        \<and> GetOrgByGuid client (OrgID pcfCert) = Inr org \<and> Org_Guid org = OrgID pcfCert
        \<and> GetSpaceByGuid client (SpaceID pcfCert) = Inr space
        \<and> Space_Guid space = SpaceID pcfCert \<and> Space_OrganizationGuid space = OrgID pcfCert
        \<and> tr = tr0 @ [Call_NewClient, Call_GetServiceInstanceByGuid (InstanceID pcfCert),
                      Call_AppByGuid (AppID pcfCert), Call_GetOrgByGuid (OrgID pcfCert),
                      Call_GetSpaceByGuid (SpaceID pcfCert)])"
    by (rule validate_api_ok_lookups)
next
  assume "validate_api ext cfg pcfCert tr0 = (Ok (), tr)"
  then show "tr = tr0 @ [Call_NewClient, Call_GetServiceInstanceByGuid (InstanceID pcfCert),
                    Call_AppByGuid (AppID pcfCert), Call_GetOrgByGuid (OrgID pcfCert),
                    Call_GetSpaceByGuid (SpaceID pcfCert)]"
    by (rule validate_api_ok_trace)
next
  show "\<exists>n. snd (validate_api ext cfg pcfCert tr0) =
          tr0 @ Call_NewClient #
            take n [Call_GetServiceInstanceByGuid (InstanceID pcfCert),
                    Call_AppByGuid (AppID pcfCert), Call_GetOrgByGuid (OrgID pcfCert),
                    Call_GetSpaceByGuid (SpaceID pcfCert)]"
    by (rule validate_api_trace_prefix)
next
  show "(check_app client pcfCert = None) =
       (\<exists>app. AppByGuid client (AppID pcfCert) = Inr app \<and> App_Guid app = AppID pcfCert
              \<and> App_SpaceGuid app = SpaceID pcfCert \<and> 0 < App_Instances app)"
    by (rule check_app_passes)
qed

text \<open>
  The example deployment passes all four lookups. The reconciliation stops at the service
  instance when that lookup fails, at the application when the API reports it with no live
  instance, at the organisation when the API returns another organisation, and at the space
  when the space belongs to another organisation; it makes no lookup when the client cannot
  be built.
\<close>

theorem directory_lookups_in_order_witness:
  "cfclient_NewClient demo_ext
      \<lparr>ApiAddress = PCFAPIAddr demo_cfg, Username = PCFUsername demo_cfg,
       Password = PCFPassword demo_cfg\<rparr> = Inr demo_client
   \<and> validate_api demo_ext demo_cfg demo_cert [] =
       (Ok (), [Call_NewClient, Call_GetServiceInstanceByGuid ''instance-1'',
                Call_AppByGuid ''app-1'', Call_GetOrgByGuid ''org-1'',
                Call_GetSpaceByGuid ''space-1''])
   \<and> check_app demo_client demo_cert = None
   \<and> validate_api
        (demo_ext\<lparr>cfclient_NewClient := (\<lambda>c. Inr (demo_client\<lparr>GetServiceInstanceByGuid :=
           (\<lambda>g. Inl ''service instance not found'')\<rparr>))\<rparr>)
        demo_cfg demo_cert [] =
       (Err ''service instance not found'',
        [Call_NewClient, Call_GetServiceInstanceByGuid ''instance-1''])
   \<and> validate_api
        (demo_ext\<lparr>cfclient_NewClient := (\<lambda>c. Inr (demo_client\<lparr>AppByGuid :=
           (\<lambda>g. Inr \<lparr>App_Guid = ''app-1'', App_SpaceGuid = ''space-1'', App_Instances = 0\<rparr>)\<rparr>))\<rparr>)
        demo_cfg demo_cert [] =
       (Err ''app doesn't have any live instances'',
        [Call_NewClient, Call_GetServiceInstanceByGuid ''instance-1'', Call_AppByGuid ''app-1''])
   \<and> validate_api
        (demo_ext\<lparr>cfclient_NewClient := (\<lambda>c. Inr (demo_client\<lparr>GetOrgByGuid :=
           (\<lambda>g. Inr \<lparr>Org_Guid = ''org-7''\<rparr>)\<rparr>))\<rparr>)
        demo_cfg demo_cert [] =
       (Err ''cert org ID org-1 doesn't match API's expected one of org-7'',
        [Call_NewClient, Call_GetServiceInstanceByGuid ''instance-1'', Call_AppByGuid ''app-1'',
         Call_GetOrgByGuid ''org-1''])
   \<and> validate_api
        (demo_ext\<lparr>cfclient_NewClient := (\<lambda>c. Inr (demo_client\<lparr>GetSpaceByGuid :=
           (\<lambda>g. Inr \<lparr>Space_Guid = ''space-1'', Space_OrganizationGuid = ''org-7''\<rparr>)\<rparr>))\<rparr>)
        demo_cfg demo_cert [] =
       (Err ''cert org ID org-1 doesn't match API's expected one of org-7'',
        [Call_NewClient, Call_GetServiceInstanceByGuid ''instance-1'', Call_AppByGuid ''app-1'',
         Call_GetOrgByGuid ''org-1'', Call_GetSpaceByGuid ''space-1''])
   \<and> validate_api (demo_ext\<lparr>cfclient_NewClient := (\<lambda>c. Inl ''cf api unreachable'')\<rparr>)
        demo_cfg demo_cert [] = (Err ''cf api unreachable'', [Call_NewClient])"
proof -
  let ?no_instance = "demo_client\<lparr>GetServiceInstanceByGuid :=
      (\<lambda>g. Inl ''service instance not found'')\<rparr>"
  let ?stopped = "demo_client\<lparr>AppByGuid :=
      (\<lambda>g. Inr \<lparr>App_Guid = ''app-1'', App_SpaceGuid = ''space-1'', App_Instances = 0\<rparr>)\<rparr>"
  let ?other_org = "demo_client\<lparr>GetOrgByGuid := (\<lambda>g. Inr \<lparr>Org_Guid = ''org-7''\<rparr>)\<rparr>"
  let ?moved_space = "demo_client\<lparr>GetSpaceByGuid :=
      (\<lambda>g. Inr \<lparr>Space_Guid = ''space-1'', Space_OrganizationGuid = ''org-7''\<rparr>)\<rparr>"
  have built: "cfclient_NewClient (demo_ext\<lparr>cfclient_NewClient := (\<lambda>c. Inr client)\<rparr>)
      \<lparr>ApiAddress = PCFAPIAddr demo_cfg, Username = PCFUsername demo_cfg,
       Password = PCFPassword demo_cfg\<rparr> = Inr client" for client
    by simp
  have live: "cfclient_NewClient demo_ext
      \<lparr>ApiAddress = PCFAPIAddr demo_cfg, Username = PCFUsername demo_cfg,
       Password = PCFPassword demo_cfg\<rparr> = Inr demo_client"
    by (simp add: demo_ext_def)
  have down: "cfclient_NewClient (demo_ext\<lparr>cfclient_NewClient := (\<lambda>c. Inl ''cf api unreachable'')\<rparr>)
      \<lparr>ApiAddress = PCFAPIAddr demo_cfg, Username = PCFUsername demo_cfg,
       Password = PCFPassword demo_cfg\<rparr> = Inl ''cf api unreachable''"
    by simp
  note run = directory_lookups_in_order [THEN conjunct1, rule_format]
  note spec_defs = spec_directory_lookups_def spec_lookup_def demo_client_def demo_cert_def
  have app: "check_app demo_client demo_cert = None"
    by (simp add: check_app_def demo_client_def demo_cert_def)
  have "validate_api demo_ext demo_cfg demo_cert [] =
       (Ok (), [Call_NewClient, Call_GetServiceInstanceByGuid ''instance-1'',
                Call_AppByGuid ''app-1'', Call_GetOrgByGuid ''org-1'',
                Call_GetSpaceByGuid ''space-1''])"
    unfolding run [OF live] by (simp add: spec_defs)
  moreover have "validate_api (demo_ext\<lparr>cfclient_NewClient := (\<lambda>c. Inr ?no_instance)\<rparr>)
        demo_cfg demo_cert [] =
       (Err ''service instance not found'',
        [Call_NewClient, Call_GetServiceInstanceByGuid ''instance-1''])"
    unfolding run [OF built] by (simp add: spec_defs)
  moreover have "validate_api (demo_ext\<lparr>cfclient_NewClient := (\<lambda>c. Inr ?stopped)\<rparr>)
        demo_cfg demo_cert [] =
       (Err ''app doesn't have any live instances'',
        [Call_NewClient, Call_GetServiceInstanceByGuid ''instance-1'', Call_AppByGuid ''app-1''])"
    unfolding run [OF built] by (simp add: spec_defs)
  moreover have "validate_api (demo_ext\<lparr>cfclient_NewClient := (\<lambda>c. Inr ?other_org)\<rparr>)
        demo_cfg demo_cert [] =
       (Err ''cert org ID org-1 doesn't match API's expected one of org-7'',
        [Call_NewClient, Call_GetServiceInstanceByGuid ''instance-1'', Call_AppByGuid ''app-1'',
         Call_GetOrgByGuid ''org-1''])"
    unfolding run [OF built] by (simp add: spec_defs)
  moreover have "validate_api (demo_ext\<lparr>cfclient_NewClient := (\<lambda>c. Inr ?moved_space)\<rparr>)
        demo_cfg demo_cert [] =
       (Err ''cert org ID org-1 doesn't match API's expected one of org-7'',
        [Call_NewClient, Call_GetServiceInstanceByGuid ''instance-1'', Call_AppByGuid ''app-1'',
         Call_GetOrgByGuid ''org-1'', Call_GetSpaceByGuid ''space-1''])"
    unfolding run [OF built] by (simp add: spec_defs)
  moreover have "validate_api (demo_ext\<lparr>cfclient_NewClient := (\<lambda>c. Inl ''cf api unreachable'')\<rparr>)
        demo_cfg demo_cert [] = (Err ''cf api unreachable'', [Call_NewClient])"
    using directory_lookups_in_order
      [of _ demo_cfg _ demo_cert "[]", THEN conjunct2, THEN conjunct1, rule_format, OF down]
    by simp
  ultimately show ?thesis
    using live app by simp
qed

subsection \<open>The order of the checks of validate\<close>

lemma validate_checks:
  "validate ext cfg role (Some pcfCert) remoteAddr tr0 =
     (case first_failure (spec_constraint_checks ext role pcfCert remoteAddr) tr0 of
        (Some err, tr) \<Rightarrow> (Err err, tr)
      | (None, tr) \<Rightarrow> validate_api ext cfg pcfCert tr)"
  by (simp add: validate_def validate_bound_def spec_constraint_checks_def spec_membership_step_def
        matchesIPAddress_eq meetsBoundConstraints_iff)

text \<open>
  C4. \<^verbatim>\<open>validate\<close> is a function of its arguments and of what the collaborators return.
  It runs the checks in the order of the specification: the IP match unless
  \<open>DisableIPMatching\<close> is set, then the instance, application, organisation and space
  memberships, then the CIDR containment. The first check that fails ends the validation
  with that check's error, no later check being called; when all pass the CF API lookups
  follow.
\<close>

theorem validate_fixed_order:
  "validate ext cfg role (Some pcfCert) remoteAddr tr0 =
     (case first_failure (spec_constraint_checks ext role pcfCert remoteAddr) tr0 of
        (Some err, tr) \<Rightarrow> (Err err, tr)
      | (None, tr) \<Rightarrow> validate_api ext cfg pcfCert tr)"
  by (rule validate_checks)

text \<open>
  A certificate of application \<open>app-999\<close> against a role bound to \<open>app-123\<close> and to an
  organisation the certificate is not in: the application check is the first to fail, its
  error is the one returned, and the organisation check is never called.
\<close>

theorem validate_fixed_order_witness:
  "validate demo_ext demo_cfg (demo_role\<lparr>BoundAppIDs := [''app-123''], BoundOrgIDs := [''org-9'']\<rparr>)
     (Some (demo_cert\<lparr>AppID := ''app-999''\<rparr>)) ''10.0.0.5/32'' [] =
   (Err ''app ID app-999 doesn't match role constraints of [app-123]'',
    [Call_matchesIPAddress, Call_meetsBoundConstraints ''instance-1'' [],
     Call_meetsBoundConstraints ''app-999'' [''app-123'']])"
  unfolding validate_fixed_order
  by (simp add: spec_constraint_checks_def spec_membership_step_def fmt_strings_def ip_defs
        demo_role_def demo_cert_def demo_ext_def demo_ParseIP_def)


subsection \<open>The CIDR check\<close>

lemma validate_api_trace_cidr:
  "(Call_RemoteAddrIsOk \<in> set (snd (validate_api ext cfg pcfCert tr0)))
     = (Call_RemoteAddrIsOk \<in> set tr0)"
  using validate_api_trace_set [of ext cfg pcfCert tr0]
    validate_api_trace_extends [of tr0 ext cfg pcfCert]
  by auto

lemma validate_cidr_called:
  "(Call_RemoteAddrIsOk \<in> set (snd (validate ext cfg role (Some pcfCert) remoteAddr [])))
     = ((DisableIPMatching role
           \<or> matchesIPAddress (net_ParseIP ext) remoteAddr (IPAddress pcfCert))
        \<and> meetsBoundConstraints (InstanceID pcfCert) (BoundInstanceIDs role)
        \<and> meetsBoundConstraints (AppID pcfCert) (BoundAppIDs role)
        \<and> meetsBoundConstraints (OrgID pcfCert) (BoundOrgIDs role)
        \<and> meetsBoundConstraints (SpaceID pcfCert) (BoundSpaceIDs role))"
  by (simp add: validate_def validate_bound_def Let_def validate_api_trace_cidr)

lemma validate_ok_cidr:
  "fst (validate ext cfg role (Some pcfCert) remoteAddr tr0) = Ok () \<Longrightarrow>
     RemoteAddrIsOk ext remoteAddr (BoundCIDRs role)"
  by (simp add: validate_def validate_bound_def Let_def split: if_splits)

text \<open>
  C3, as the code has it. The CIDR containment check is called exactly when every check
  before it passed: the IP match, which counts as passed when \<open>DisableIPMatching\<close> is set,
  and the four ID memberships. Setting \<open>DisableIPMatching\<close> therefore never skips it, and
  a validation that succeeds has passed it.
\<close>

theorem cidr_check_after_earlier_checks:
  "(Call_RemoteAddrIsOk \<in> set (snd (validate ext cfg role (Some pcfCert) remoteAddr [])))
     = ((DisableIPMatching role
           \<or> matchesIPAddress (net_ParseIP ext) remoteAddr (IPAddress pcfCert))
        \<and> meetsBoundConstraints (InstanceID pcfCert) (BoundInstanceIDs role)
        \<and> meetsBoundConstraints (AppID pcfCert) (BoundAppIDs role)
        \<and> meetsBoundConstraints (OrgID pcfCert) (BoundOrgIDs role)
        \<and> meetsBoundConstraints (SpaceID pcfCert) (BoundSpaceIDs role))
   \<and> (fst (validate ext cfg role (Some pcfCert) remoteAddr []) = Ok () \<longrightarrow>
        RemoteAddrIsOk ext remoteAddr (BoundCIDRs role))"
  using validate_cidr_called [of ext cfg role pcfCert remoteAddr]
    validate_ok_cidr [of ext cfg role pcfCert remoteAddr "[]"]
  by simp

text \<open>
  With IP matching disabled, a request from 10.0.0.6 for the certificate of 10.0.0.5 reaches
  the CIDR check and is validated, being inside 10.0.0.0/24.
\<close>

theorem cidr_check_after_earlier_checks_witness:
  "DisableIPMatching (demo_role\<lparr>DisableIPMatching := True\<rparr>)
   \<and> \<not> matchesIPAddress (net_ParseIP demo_ext) ''10.0.0.6'' (IPAddress demo_cert)
   \<and> Call_RemoteAddrIsOk \<in> set (snd (validate demo_ext demo_cfg
         (demo_role\<lparr>DisableIPMatching := True\<rparr>) (Some demo_cert) ''10.0.0.6'' []))
   \<and> fst (validate demo_ext demo_cfg (demo_role\<lparr>DisableIPMatching := True\<rparr>)
         (Some demo_cert) ''10.0.0.6'' []) = Ok ()
   \<and> RemoteAddrIsOk demo_ext ''10.0.0.6'' (BoundCIDRs (demo_role\<lparr>DisableIPMatching := True\<rparr>))"
proof -
  let ?role = "demo_role\<lparr>DisableIPMatching := True\<rparr>"
  note at_demo = cidr_check_after_earlier_checks [of demo_ext demo_cfg ?role demo_cert "''10.0.0.6''"]
  have ok: "fst (validate demo_ext demo_cfg ?role (Some demo_cert) ''10.0.0.6'' []) = Ok ()"
    by (simp add: demo_defs validate_def validate_bound_def validate_api_def
          check_service_instance_def check_app_def check_org_def check_space_def
          meetsBoundConstraints_def)
  have called: "Call_RemoteAddrIsOk \<in> set (snd (validate demo_ext demo_cfg ?role
      (Some demo_cert) ''10.0.0.6'' []))"
    unfolding at_demo [THEN conjunct1]
    by (simp add: demo_role_def demo_cert_def meetsBoundConstraints_def)
  have inside: "RemoteAddrIsOk demo_ext ''10.0.0.6'' (BoundCIDRs ?role)"
    using at_demo [THEN conjunct2, rule_format, OF ok] .
  have differs: "\<not> matchesIPAddress (net_ParseIP demo_ext) ''10.0.0.6'' (IPAddress demo_cert)"
    by (simp add: matchesIPAddress_eq demo_ext_def demo_ParseIP_def demo_cert_def ip_defs)
  show ?thesis
    using ok called inside differs by simp
qed

text \<open>
  C3, as the claim states it, fails: with IP matching enabled, a request from 192.168.1.1
  for the certificate of 10.0.0.5 is refused by the IP match, and the CIDR check, which would
  have refused it too, is never called.
\<close>

theorem cidr_check_skipped_counterexample:
  "validate demo_ext demo_cfg demo_role (Some demo_cert) ''192.168.1.1'' []
     = (Err ''no matching IP address'', [Call_matchesIPAddress])
   \<and> Call_RemoteAddrIsOk \<notin> set (snd (validate demo_ext demo_cfg demo_role (Some demo_cert)
         ''192.168.1.1'' []))
   \<and> \<not> RemoteAddrIsOk demo_ext ''192.168.1.1'' (BoundCIDRs demo_role)"
  by (simp add: validate_def matchesIPAddress_eq demo_ext_def demo_ParseIP_def demo_cert_def
        demo_role_def ip_defs)


subsection \<open>The login handler\<close>

lemma validate_api_not_Panic: "validate_api ext cfg pcfCert tr0 \<noteq> (Panic, tr)"
  using validate_api_no_panic [of ext cfg pcfCert tr0] by auto

lemma validate_bound_not_Panic: "validate_bound ext cfg role pcfCert remoteAddr tr0 \<noteq> (Panic, tr)"
  by (simp add: validate_bound_def Let_def validate_api_not_Panic)

lemma validate_Some_not_Panic: "validate ext cfg role (Some pcfCert) remoteAddr tr0 \<noteq> (Panic, tr)"
  by (simp add: validate_def Let_def validate_bound_not_Panic)

lemma attemptLogin_verified_not_Panic:
  "attemptLogin_verified ext req roleName signature clientCertificate signingTime \<noteq> (Panic, tr)"
  by (simp add: attemptLogin_verified_def validate_Some_not_Panic
        split: sum.splits option.splits prod.splits result.splits)

lemma attemptLogin_not_Panic: "attemptLogin ext req data \<noteq> (Panic, tr)"
  by (simp add: attemptLogin_def Let_def attemptLogin_verified_not_Panic
        split: sum.splits option.splits)

lemma operationLoginUpdate_on_error:
  "attemptLogin ext req data = (Err err, tr) \<Longrightarrow>
     operationLoginUpdate ext req data =
       (Ok (ErrorResponse (''authentication failed, failure ID '' @ fst (GenerateUUID ext))),
        tr @ [Call_GenerateUUID,
              Call_logger_Error (''authentication failed, failure ID '' @ fst (GenerateUUID ext) @
                                 '': '' @ err)])"
  by (simp add: operationLoginUpdate_def Let_def)

lemma operationLoginUpdate_returns: "\<exists>resp tr. operationLoginUpdate ext req data = (Ok resp, tr)"
proof (cases "attemptLogin ext req data")
  case (Pair r tr)
  then show ?thesis
    using attemptLogin_not_Panic [of ext req data tr]
    by (cases r) (simp_all add: operationLoginUpdate_def Let_def)
qed

subsection \<open>The renewal handler\<close>

lemma validate_trace_no_uuid:
  "Call_GenerateUUID \<notin> set tr0 \<Longrightarrow>
     Call_GenerateUUID \<notin> set (snd (validate ext cfg role p remoteAddr tr0))"
proof (cases p)
  case None
  then show "Call_GenerateUUID \<notin> set tr0 \<Longrightarrow> ?thesis" by (simp add: validate_def)
next
  case (Some pcfCert)
  have api: "Call_GenerateUUID \<notin> set tr \<Longrightarrow>
      Call_GenerateUUID \<notin> set (snd (validate_api ext cfg pcfCert tr))" for tr
    using validate_api_trace_set [of ext cfg pcfCert tr] by auto
  show "Call_GenerateUUID \<notin> set tr0 \<Longrightarrow> ?thesis"
    by (simp add: Some validate_def validate_bound_def Let_def api)
qed

lemma validate_trace_no_logger:
  "Call_logger_Error m \<notin> set tr0 \<Longrightarrow>
     Call_logger_Error m \<notin> set (snd (validate ext cfg role p remoteAddr tr0))"
proof (cases p)
  case None
  then show "Call_logger_Error m \<notin> set tr0 \<Longrightarrow> ?thesis" by (simp add: validate_def)
next
  case (Some pcfCert)
  have api: "Call_logger_Error m \<notin> set tr \<Longrightarrow>
      Call_logger_Error m \<notin> set (snd (validate_api ext cfg pcfCert tr))" for tr
    using validate_api_trace_set [of ext cfg pcfCert tr] by auto
  show "Call_logger_Error m \<notin> set tr0 \<Longrightarrow> ?thesis"
    by (simp add: Some validate_def validate_bound_def Let_def api)
qed

lemma validate_from_empty_no_uuid:
  "validate ext cfg role p remoteAddr [] = (r, tr) \<Longrightarrow> Call_GenerateUUID \<notin> set tr"
  using validate_trace_no_uuid [of "[]" ext cfg role p remoteAddr] by simp

lemma validate_from_empty_no_logger:
  "validate ext cfg role p remoteAddr [] = (r, tr) \<Longrightarrow> Call_logger_Error m \<notin> set tr"
  using validate_trace_no_logger [of m "[]" ext cfg role p remoteAddr] by simp

lemma pathLoginRenew_no_uuid: "Call_GenerateUUID \<notin> set (snd (pathLoginRenew ext req))"
  by (auto simp: pathLoginRenew_def Let_def dest: validate_from_empty_no_uuid
        split: sum.splits option.splits prod.splits result.splits)

lemma pathLoginRenew_no_logger: "Call_logger_Error m \<notin> set (snd (pathLoginRenew ext req))"
  by (auto simp: pathLoginRenew_def Let_def dest: validate_from_empty_no_logger
        split: sum.splits option.splits prod.splits result.splits)

lemma pathLoginRenew_validated:
  assumes "config ext (Storage req) = Inr (Some cfg)"
    and "Get (Auth_Metadata (ReqAuth req)) ''role'' \<noteq> []"
    and "getRole ext (Storage req) (Get (Auth_Metadata (ReqAuth req)) ''role'') = Inr (Some role)"
    and "NewPCFCertificate ext
           (Get (Auth_Metadata (ReqAuth req)) ''instance_id'')
           (Get (Auth_Metadata (ReqAuth req)) ''org_id'')
           (Get (Auth_Metadata (ReqAuth req)) ''space_id'')
           (Get (Auth_Metadata (ReqAuth req)) ''app_id'')
           (Get (Auth_Metadata (ReqAuth req)) ''ip_address'') = (p, e)"
  shows "pathLoginRenew ext req =
     (case validate ext cfg role p (RemoteAddr req) [] of
        (Err err, tr) \<Rightarrow> (Err err, tr)
      | (Panic, tr) \<Rightarrow> (Panic, tr)
      | (Ok _, tr) \<Rightarrow>
          (Ok (AuthResponse
             ((ReqAuth req)
                \<lparr>Auth_LeaseOptions :=
                   (Auth_LeaseOptions (ReqAuth req))
                     \<lparr>Lease_TTL := TTL role, Lease_MaxTTL := MaxTTL role\<rparr>,
                 Auth_Period := Period role\<rparr>)), tr))"
  using assms by (simp add: pathLoginRenew_def)

lemma validate_api_ignores_reconstruction:
  "validate_api (ext\<lparr>NewPCFCertificate := f\<rparr>) cfg pcfCert tr0 = validate_api ext cfg pcfCert tr0"
  by (simp add: validate_api_def Let_def)

lemma validate_bound_ignores_reconstruction:
  "validate_bound (ext\<lparr>NewPCFCertificate := f\<rparr>) cfg role pcfCert remoteAddr tr0
     = validate_bound ext cfg role pcfCert remoteAddr tr0"
  by (simp add: validate_bound_def Let_def validate_api_ignores_reconstruction)

lemma validate_ignores_reconstruction:
  "validate (ext\<lparr>NewPCFCertificate := f\<rparr>) cfg role p remoteAddr tr0
     = validate ext cfg role p remoteAddr tr0"
  by (simp add: validate_def Let_def validate_bound_ignores_reconstruction split: option.splits)

lemma pathLoginRenew_ignores_reconstruction_error:
  "pathLoginRenew
     (ext\<lparr>NewPCFCertificate :=
            (\<lambda>a b c d i. (fst (NewPCFCertificate ext a b c d i), g a b c d i))\<rparr>) req
     = pathLoginRenew ext req"
  by (simp add: pathLoginRenew_def Let_def validate_ignores_reconstruction case_prod_beta
        cong: sum.case_cong option.case_cong result.case_cong if_cong)

lemma pathLoginRenew_ok:
  assumes "pathLoginRenew ext req = (Ok resp, tr)"
  shows "\<exists>cfg role.
           config ext (Storage req) = Inr (Some cfg)
         \<and> getRole ext (Storage req) (Get (Auth_Metadata (ReqAuth req)) ''role'') = Inr (Some role)
         \<and> resp = AuthResponse
             ((ReqAuth req)
                \<lparr>Auth_LeaseOptions :=
                   (Auth_LeaseOptions (ReqAuth req))
                     \<lparr>Lease_TTL := TTL role, Lease_MaxTTL := MaxTTL role\<rparr>,
                 Auth_Period := Period role\<rparr>)"
  using assms
  by (auto simp: pathLoginRenew_def Let_def
        split: sum.splits option.splits prod.splits result.splits if_splits)

lemma pathLoginRenew_failures:
  "(config ext (Storage req) = Inl err \<longrightarrow> pathLoginRenew ext req = (Err err, []))
   \<and> (config ext (Storage req) = Inr None \<longrightarrow>
        pathLoginRenew ext req =
          (Err ''no configuration is available for reaching the PCF API'', []))
   \<and> (config ext (Storage req) = Inr (Some cfg)
        \<and> Get (Auth_Metadata (ReqAuth req)) ''role'' = [] \<longrightarrow>
        pathLoginRenew ext req =
          (Err ''unable to retrieve role from metadata during renewal'', []))
   \<and> (config ext (Storage req) = Inr (Some cfg)
        \<and> Get (Auth_Metadata (ReqAuth req)) ''role'' \<noteq> []
        \<and> getRole ext (Storage req) (Get (Auth_Metadata (ReqAuth req)) ''role'') = Inl err \<longrightarrow>
        pathLoginRenew ext req = (Err err, []))
   \<and> (config ext (Storage req) = Inr (Some cfg)
        \<and> Get (Auth_Metadata (ReqAuth req)) ''role'' \<noteq> []
        \<and> getRole ext (Storage req) (Get (Auth_Metadata (ReqAuth req)) ''role'') = Inr None \<longrightarrow>
        pathLoginRenew ext req = (Err ''no matching role'', []))
   \<and> (config ext (Storage req) = Inr (Some cfg)
        \<and> Get (Auth_Metadata (ReqAuth req)) ''role'' \<noteq> []
        \<and> getRole ext (Storage req) (Get (Auth_Metadata (ReqAuth req)) ''role'')
            = Inr (Some role)
        \<and> validate ext cfg role
             (fst (NewPCFCertificate ext
                (Get (Auth_Metadata (ReqAuth req)) ''instance_id'')
                (Get (Auth_Metadata (ReqAuth req)) ''org_id'')
                (Get (Auth_Metadata (ReqAuth req)) ''space_id'')
                (Get (Auth_Metadata (ReqAuth req)) ''app_id'')
                (Get (Auth_Metadata (ReqAuth req)) ''ip_address'')))
             (RemoteAddr req) [] = (Err err, tr) \<longrightarrow>
        pathLoginRenew ext req = (Err err, tr))"
  by (simp add: pathLoginRenew_def case_prod_beta)

lemmas model_defs = attemptLogin_def attemptLogin_verified_def parseTime_def
  check_signing_time_cases validate_def validate_bound_def validate_api_def
  check_service_instance_def check_app_def check_org_def check_space_def
  meetsBoundConstraints_def matchesIPAddress_eq ip_defs fmt_strings_def Get_def

text \<open>
  C2. When \<^verbatim>\<open>attemptLogin\<close> fails, at whatever stage, the login handler calls the UUID
  generator, logs "authentication failed, failure ID u: err" with the error of the failed
  stage, and answers with the error response "authentication failed, failure ID u", in
  which the error does not appear; \<open>u\<close> is what the generator returned. The renewal
  handler returns the error of the stage that failed, unchanged: the error of the
  configuration store, of the role store or of \<^verbatim>\<open>validate\<close>, or its own message for a
  missing configuration, role name or role. It never calls the UUID generator or the logger.
\<close>

theorem login_failures_redacted_renewal_failures_not:
  "(attemptLogin ext lreq data = (Err lerr, ltr) \<longrightarrow>
      operationLoginUpdate ext lreq data =
        (Ok (ErrorResponse (''authentication failed, failure ID '' @ fst (GenerateUUID ext))),
         ltr @ [Call_GenerateUUID,
                Call_logger_Error (''authentication failed, failure ID '' @
                                   fst (GenerateUUID ext) @ '': '' @ lerr)]))
   \<and> (config ext (Storage req) = Inl err \<longrightarrow> pathLoginRenew ext req = (Err err, []))
   \<and> (config ext (Storage req) = Inr None \<longrightarrow>
        pathLoginRenew ext req =
          (Err ''no configuration is available for reaching the PCF API'', []))
   \<and> (config ext (Storage req) = Inr (Some cfg)
        \<and> Get (Auth_Metadata (ReqAuth req)) ''role'' = [] \<longrightarrow>
        pathLoginRenew ext req =
          (Err ''unable to retrieve role from metadata during renewal'', []))
   \<and> (config ext (Storage req) = Inr (Some cfg)
        \<and> Get (Auth_Metadata (ReqAuth req)) ''role'' \<noteq> []
        \<and> getRole ext (Storage req) (Get (Auth_Metadata (ReqAuth req)) ''role'') = Inl err \<longrightarrow>
        pathLoginRenew ext req = (Err err, []))
   \<and> (config ext (Storage req) = Inr (Some cfg)
        \<and> Get (Auth_Metadata (ReqAuth req)) ''role'' \<noteq> []
        \<and> getRole ext (Storage req) (Get (Auth_Metadata (ReqAuth req)) ''role'') = Inr None \<longrightarrow>
        pathLoginRenew ext req = (Err ''no matching role'', []))
   \<and> (config ext (Storage req) = Inr (Some cfg)
        \<and> Get (Auth_Metadata (ReqAuth req)) ''role'' \<noteq> []
        \<and> getRole ext (Storage req) (Get (Auth_Metadata (ReqAuth req)) ''role'')
            = Inr (Some role)
        \<and> validate ext cfg role
             (fst (NewPCFCertificate ext
                (Get (Auth_Metadata (ReqAuth req)) ''instance_id'')
                (Get (Auth_Metadata (ReqAuth req)) ''org_id'')
                (Get (Auth_Metadata (ReqAuth req)) ''space_id'')
                (Get (Auth_Metadata (ReqAuth req)) ''app_id'')
                (Get (Auth_Metadata (ReqAuth req)) ''ip_address'')))
             (RemoteAddr req) [] = (Err err, tr) \<longrightarrow>
        pathLoginRenew ext req = (Err err, tr))
   \<and> Call_GenerateUUID \<notin> set (snd (pathLoginRenew ext req))
   \<and> Call_logger_Error m \<notin> set (snd (pathLoginRenew ext req))"
  using operationLoginUpdate_on_error [of ext lreq data lerr ltr]
    pathLoginRenew_failures [of ext req err cfg role tr]
    pathLoginRenew_no_uuid [of ext req] pathLoginRenew_no_logger [of m ext req]
  by simp

text \<open>
  The role of the example is tightened to application \<open>app-123\<close>. A login with a certificate
  of \<open>app-999\<close> gets the failure ID only, while the log entry names both; a renewal of the
  credential of \<open>app-1\<close> gets the full error. A renewal after the role was deleted, or
  while the configuration cannot be read, gets those errors.
\<close>

theorem login_failures_redacted_renewal_failures_not_witness:
  "attemptLogin
     (demo_ext\<lparr>getRole := (\<lambda>st n. Inr (Some (demo_role\<lparr>BoundAppIDs := [''app-123'']\<rparr>))),
               NewPCFCertificateFromx509 := (\<lambda>c. Inr (demo_cert\<lparr>AppID := ''app-999''\<rparr>))\<rparr>)
     demo_req demo_data =
     (Err ''app ID app-999 doesn't match role constraints of [app-123]'',
      [Call_matchesIPAddress, Call_meetsBoundConstraints ''instance-1'' [],
       Call_meetsBoundConstraints ''app-999'' [''app-123'']])
   \<and> operationLoginUpdate
     (demo_ext\<lparr>getRole := (\<lambda>st n. Inr (Some (demo_role\<lparr>BoundAppIDs := [''app-123'']\<rparr>))),
               NewPCFCertificateFromx509 := (\<lambda>c. Inr (demo_cert\<lparr>AppID := ''app-999''\<rparr>))\<rparr>)
     demo_req demo_data =
     (Ok (ErrorResponse ''authentication failed, failure ID 6f2b1c9e-0d3a-4b57-9c1e-2a7d4e5f6a7b''),
      [Call_matchesIPAddress, Call_meetsBoundConstraints ''instance-1'' [],
       Call_meetsBoundConstraints ''app-999'' [''app-123''],
       Call_GenerateUUID,
       Call_logger_Error ''authentication failed, failure ID 6f2b1c9e-0d3a-4b57-9c1e-2a7d4e5f6a7b: app ID app-999 doesn't match role constraints of [app-123]''])
   \<and> pathLoginRenew
     (demo_ext\<lparr>getRole := (\<lambda>st n. Inr (Some (demo_role\<lparr>BoundAppIDs := [''app-123'']\<rparr>))),
               NewPCFCertificateFromx509 := (\<lambda>c. Inr (demo_cert\<lparr>AppID := ''app-999''\<rparr>))\<rparr>)
     demo_req =
     (Err ''app ID app-1 doesn't match role constraints of [app-123]'',
      [Call_matchesIPAddress, Call_meetsBoundConstraints ''instance-1'' [],
       Call_meetsBoundConstraints ''app-1'' [''app-123'']])
   \<and> pathLoginRenew (demo_ext\<lparr>getRole := (\<lambda>st n. Inr None)\<rparr>) demo_req
       = (Err ''no matching role'', [])
   \<and> pathLoginRenew (demo_ext\<lparr>getRole := (\<lambda>st n. Inl ''storage: read failed'')\<rparr>) demo_req
       = (Err ''storage: read failed'', [])
   \<and> pathLoginRenew (demo_ext\<lparr>config := (\<lambda>st. Inl ''storage: read failed'')\<rparr>) demo_req
       = (Err ''storage: read failed'', [])
   \<and> pathLoginRenew (demo_ext\<lparr>config := (\<lambda>st. Inr None)\<rparr>) demo_req
       = (Err ''no configuration is available for reaching the PCF API'', [])
   \<and> pathLoginRenew demo_ext (demo_req\<lparr>ReqAuth := demo_auth\<lparr>Auth_Metadata := Map.empty\<rparr>\<rparr>)
       = (Err ''unable to retrieve role from metadata during renewal'', [])"
proof -
  let ?tight = "demo_ext\<lparr>getRole := (\<lambda>st n. Inr (Some (demo_role\<lparr>BoundAppIDs := [''app-123'']\<rparr>))),
               NewPCFCertificateFromx509 := (\<lambda>c. Inr (demo_cert\<lparr>AppID := ''app-999''\<rparr>))\<rparr>"
  let ?role = "demo_role\<lparr>BoundAppIDs := [''app-123'']\<rparr>"
  let ?calls = "[Call_matchesIPAddress, Call_meetsBoundConstraints ''instance-1'' [],
       Call_meetsBoundConstraints ''app-999'' [''app-123'']]"
  let ?nometa = "demo_req\<lparr>ReqAuth := demo_auth\<lparr>Auth_Metadata := Map.empty\<rparr>\<rparr>"
  have login: "attemptLogin ?tight demo_req demo_data =
      (Err ''app ID app-999 doesn't match role constraints of [app-123]'', ?calls)"
    by (simp add: model_defs demo_defs)
  have stores: "config ?tight (Storage demo_req) = Inr (Some demo_cfg)"
    "Get (Auth_Metadata (ReqAuth demo_req)) ''role'' = ''my-role''"
    "getRole ?tight (Storage demo_req) ''my-role'' = Inr (Some ?role)"
    by (simp_all add: demo_defs Get_def)
  have renew: "validate ?tight demo_cfg ?role
             (fst (NewPCFCertificate ?tight
                (Get (Auth_Metadata (ReqAuth demo_req)) ''instance_id'')
                (Get (Auth_Metadata (ReqAuth demo_req)) ''org_id'')
                (Get (Auth_Metadata (ReqAuth demo_req)) ''space_id'')
                (Get (Auth_Metadata (ReqAuth demo_req)) ''app_id'')
                (Get (Auth_Metadata (ReqAuth demo_req)) ''ip_address'')))
             (RemoteAddr demo_req) [] =
      (Err ''app ID app-1 doesn't match role constraints of [app-123]'',
       [Call_matchesIPAddress, Call_meetsBoundConstraints ''instance-1'' [],
        Call_meetsBoundConstraints ''app-1'' [''app-123'']])"
    by (simp add: model_defs demo_defs)
  have gone: "config (demo_ext\<lparr>getRole := (\<lambda>st n. Inr None)\<rparr>) (Storage demo_req)
        = Inr (Some demo_cfg)"
    "getRole (demo_ext\<lparr>getRole := (\<lambda>st n. Inr None)\<rparr>) (Storage demo_req) ''my-role'' = Inr None"
    "config (demo_ext\<lparr>getRole := (\<lambda>st n. Inl ''storage: read failed'')\<rparr>) (Storage demo_req)
        = Inr (Some demo_cfg)"
    "getRole (demo_ext\<lparr>getRole := (\<lambda>st n. Inl ''storage: read failed'')\<rparr>) (Storage demo_req)
        ''my-role'' = Inl ''storage: read failed''"
    "config (demo_ext\<lparr>config := (\<lambda>st. Inl ''storage: read failed'')\<rparr>) (Storage demo_req)
        = Inl ''storage: read failed''"
    "config (demo_ext\<lparr>config := (\<lambda>st. Inr None)\<rparr>) (Storage demo_req) = Inr None"
    "config demo_ext (Storage ?nometa) = Inr (Some demo_cfg)"
    "Get (Auth_Metadata (ReqAuth ?nometa)) ''role'' = []"
    by (simp_all add: demo_ext_def demo_req_def Get_def)
  have uuid: "fst (GenerateUUID ?tight) = ''6f2b1c9e-0d3a-4b57-9c1e-2a7d4e5f6a7b''"
    by (simp add: demo_ext_def)
  show ?thesis
    using login stores renew gone uuid
      login_failures_redacted_renewal_failures_not
        [of ?tight demo_req demo_data _ ?calls demo_req _ demo_cfg ?role]
      login_failures_redacted_renewal_failures_not
        [of "demo_ext\<lparr>getRole := (\<lambda>st n. Inr None)\<rparr>" _ _ _ _ demo_req _ demo_cfg]
      login_failures_redacted_renewal_failures_not
        [of "demo_ext\<lparr>getRole := (\<lambda>st n. Inl ''storage: read failed'')\<rparr>" _ _ _ _ demo_req
            "''storage: read failed''" demo_cfg]
      login_failures_redacted_renewal_failures_not
        [of "demo_ext\<lparr>config := (\<lambda>st. Inl ''storage: read failed'')\<rparr>" _ _ _ _ demo_req
            "''storage: read failed''"]
      login_failures_redacted_renewal_failures_not
        [of "demo_ext\<lparr>config := (\<lambda>st. Inr None)\<rparr>" _ _ _ _ demo_req]
      login_failures_redacted_renewal_failures_not
        [of demo_ext _ _ _ _ ?nometa _ demo_cfg]
    by simp
qed


text \<open>
  C10. The login handler always returns a response and a nil error: it never returns an
  error of its own and never panics. A failed login attempt becomes an error response. The
  error the UUID generator may return is dropped: whatever the generator returns as its
  second component, the message is built from the first, so that a generator that fails and
  returns the empty string gives "authentication failed, failure ID " with nothing after it.
\<close>

theorem login_handler_never_returns_error:
  "(\<exists>resp tr'. operationLoginUpdate ext req data = (Ok resp, tr'))
   \<and> (attemptLogin ext req data = (Err err, tr) \<and> GenerateUUID ext = (u, uerr) \<longrightarrow>
        operationLoginUpdate ext req data =
          (Ok (ErrorResponse (''authentication failed, failure ID '' @ u)),
           tr @ [Call_GenerateUUID,
                 Call_logger_Error (''authentication failed, failure ID '' @ u @ '': '' @ err)]))
   \<and> (attemptLogin ext req data = (Err err, tr) \<and> GenerateUUID ext = ([], Some generr) \<longrightarrow>
        fst (operationLoginUpdate ext req data)
          = Ok (ErrorResponse ''authentication failed, failure ID ''))"
  using operationLoginUpdate_returns [of ext req data]
    operationLoginUpdate_on_error [of ext req data err tr]
  by auto

text \<open>
  A forged signature while the generator fails: the answer is the redacted message with an
  empty failure ID, and no error is returned.
\<close>

theorem login_handler_never_returns_error_witness:
  "attemptLogin (demo_ext\<lparr>GenerateUUID := ([], Some ''failed to read random bytes'')\<rparr>)
     demo_req (demo_data(''signature'' \<mapsto> ''forged'')) = (Err ''no matching certificate'', [])
   \<and> GenerateUUID (demo_ext\<lparr>GenerateUUID := ([], Some ''failed to read random bytes'')\<rparr>)
       = ([], Some ''failed to read random bytes'')
   \<and> operationLoginUpdate (demo_ext\<lparr>GenerateUUID := ([], Some ''failed to read random bytes'')\<rparr>)
       demo_req (demo_data(''signature'' \<mapsto> ''forged'')) =
       (Ok (ErrorResponse ''authentication failed, failure ID ''),
        [Call_GenerateUUID,
         Call_logger_Error ''authentication failed, failure ID : no matching certificate''])"
proof -
  let ?ext = "demo_ext\<lparr>GenerateUUID := ([], Some ''failed to read random bytes'')\<rparr>"
  let ?data = "demo_data(''signature'' \<mapsto> ''forged'')"
  have failed: "attemptLogin ?ext demo_req ?data = (Err ''no matching certificate'', [])"
    by (simp add: model_defs demo_defs)
  have gen: "GenerateUUID ?ext = ([], Some ''failed to read random bytes'')"
    by simp
  show ?thesis
    using failed gen
      login_handler_never_returns_error
        [of ?ext demo_req ?data "''no matching certificate''" "[]" "[]"
            "Some ''failed to read random bytes''"]
    by simp
qed

text \<open>
  C6. A renewal that succeeds returns the credential the request carried with its TTL,
  MaxTTL and Period set to those of the role as the role store now returns it; the
  policies, the metadata and every other field are those of the request's credential.
\<close>

theorem renewal_refreshes_lease_only:
  "pathLoginRenew ext req = (Ok resp, tr) \<Longrightarrow>
     \<exists>role a.
        getRole ext (Storage req) (Get (Auth_Metadata (ReqAuth req)) ''role'') = Inr (Some role)
      \<and> resp = AuthResponse a
      \<and> Lease_TTL (Auth_LeaseOptions a) = TTL role
      \<and> Lease_MaxTTL (Auth_LeaseOptions a) = MaxTTL role
      \<and> Auth_Period a = Period role
      \<and> Auth_Policies a = Auth_Policies (ReqAuth req)
      \<and> Auth_Metadata a = Auth_Metadata (ReqAuth req)
      \<and> Auth_DisplayName a = Auth_DisplayName (ReqAuth req)
      \<and> Auth_Alias a = Auth_Alias (ReqAuth req)
      \<and> Auth_BoundCIDRs a = Auth_BoundCIDRs (ReqAuth req)
      \<and> Lease_Renewable (Auth_LeaseOptions a) = Lease_Renewable (Auth_LeaseOptions (ReqAuth req))"
proof -
  assume "pathLoginRenew ext req = (Ok resp, tr)"
  then obtain cfg role where
    role: "getRole ext (Storage req) (Get (Auth_Metadata (ReqAuth req)) ''role'') = Inr (Some role)"
    and resp: "resp = AuthResponse
             ((ReqAuth req)
                \<lparr>Auth_LeaseOptions :=
                   (Auth_LeaseOptions (ReqAuth req))
                     \<lparr>Lease_TTL := TTL role, Lease_MaxTTL := MaxTTL role\<rparr>,
                 Auth_Period := Period role\<rparr>)"
    using pathLoginRenew_ok [of ext req resp tr] by blast
  show ?thesis
    by (intro exI [of _ role]
          exI [of _ "(ReqAuth req)
                \<lparr>Auth_LeaseOptions :=
                   (Auth_LeaseOptions (ReqAuth req))
                     \<lparr>Lease_TTL := TTL role, Lease_MaxTTL := MaxTTL role\<rparr>,
                 Auth_Period := Period role\<rparr>"])
       (simp add: role resp)
qed

text \<open>
  The example credential was issued with a TTL of one minute, a period of 5 and the policy
  \<open>issued-policy\<close>; the role now has a TTL of one hour, a period of 0 and the policy
  \<open>default\<close>. The renewed credential has the hour and the period 0, and still the policy
  \<open>issued-policy\<close>.
\<close>

theorem renewal_refreshes_lease_only_witness:
  "pathLoginRenew demo_ext demo_req =
     (Ok (AuthResponse
        (demo_auth\<lparr>Auth_LeaseOptions :=
                     \<lparr>Lease_TTL = 3600000000000, Lease_MaxTTL = 7200000000000,
                      Lease_Renewable = True\<rparr>,
                   Auth_Period := 0\<rparr>)),
      [Call_matchesIPAddress, Call_meetsBoundConstraints ''instance-1'' [],
       Call_meetsBoundConstraints ''app-1'' [''app-1''],
       Call_meetsBoundConstraints ''org-1'' [''org-1'', ''org-2''],
       Call_meetsBoundConstraints ''space-1'' [], Call_RemoteAddrIsOk, Call_NewClient,
       Call_GetServiceInstanceByGuid ''instance-1'', Call_AppByGuid ''app-1'',
       Call_GetOrgByGuid ''org-1'', Call_GetSpaceByGuid ''space-1''])
   \<and> Lease_TTL (Auth_LeaseOptions demo_auth) = 60000000000
   \<and> Auth_Policies demo_auth = [''issued-policy'']
   \<and> Policies demo_role = [''default'']
   \<and> (\<exists>role a.
        getRole demo_ext (Storage demo_req) (Get (Auth_Metadata (ReqAuth demo_req)) ''role'')
          = Inr (Some role)
      \<and> AuthResponse
          (demo_auth\<lparr>Auth_LeaseOptions :=
                       \<lparr>Lease_TTL = 3600000000000, Lease_MaxTTL = 7200000000000,
                        Lease_Renewable = True\<rparr>,
                     Auth_Period := 0\<rparr>) = AuthResponse a
      \<and> Lease_TTL (Auth_LeaseOptions a) = TTL role
      \<and> Lease_MaxTTL (Auth_LeaseOptions a) = MaxTTL role
      \<and> Auth_Period a = Period role
      \<and> Auth_Policies a = Auth_Policies (ReqAuth demo_req)
      \<and> Auth_Metadata a = Auth_Metadata (ReqAuth demo_req)
      \<and> Auth_DisplayName a = Auth_DisplayName (ReqAuth demo_req)
      \<and> Auth_Alias a = Auth_Alias (ReqAuth demo_req)
      \<and> Auth_BoundCIDRs a = Auth_BoundCIDRs (ReqAuth demo_req)
      \<and> Lease_Renewable (Auth_LeaseOptions a)
          = Lease_Renewable (Auth_LeaseOptions (ReqAuth demo_req)))"
proof -
  have renewed: "pathLoginRenew demo_ext demo_req =
     (Ok (AuthResponse
        (demo_auth\<lparr>Auth_LeaseOptions :=
                     \<lparr>Lease_TTL = 3600000000000, Lease_MaxTTL = 7200000000000,
                      Lease_Renewable = True\<rparr>,
                   Auth_Period := 0\<rparr>)),
      [Call_matchesIPAddress, Call_meetsBoundConstraints ''instance-1'' [],
       Call_meetsBoundConstraints ''app-1'' [''app-1''],
       Call_meetsBoundConstraints ''org-1'' [''org-1'', ''org-2''],
       Call_meetsBoundConstraints ''space-1'' [], Call_RemoteAddrIsOk, Call_NewClient,
       Call_GetServiceInstanceByGuid ''instance-1'', Call_AppByGuid ''app-1'',
       Call_GetOrgByGuid ''org-1'', Call_GetSpaceByGuid ''space-1''])"
    by (simp add: pathLoginRenew_def model_defs demo_defs)
  have issued: "Lease_TTL (Auth_LeaseOptions demo_auth) = 60000000000"
    "Auth_Policies demo_auth = [''issued-policy'']" "Policies demo_role = [''default'']"
    by (simp_all add: demo_auth_def demo_role_def)
  show ?thesis
    using renewed issued renewal_refreshes_lease_only [OF renewed] by simp
qed

text \<open>
  C9. In the renewal handler the error returned by \<^verbatim>\<open>models.NewPCFCertificate\<close> is
  assigned and never read. Once the configuration and the role are found, the outcome of
  the renewal is the outcome of \<^verbatim>\<open>validate\<close> on the certificate pointer that call
  returned, whatever error came with it; and replacing the error the reconstruction reports
  by any other, or by none, leaves the renewal as it was.
\<close>

theorem renewal_drops_reconstruction_error:
  "(config ext (Storage req) = Inr (Some cfg)
      \<and> Get (Auth_Metadata (ReqAuth req)) ''role'' \<noteq> []
      \<and> getRole ext (Storage req) (Get (Auth_Metadata (ReqAuth req)) ''role'') = Inr (Some role)
      \<and> NewPCFCertificate ext
           (Get (Auth_Metadata (ReqAuth req)) ''instance_id'')
           (Get (Auth_Metadata (ReqAuth req)) ''org_id'')
           (Get (Auth_Metadata (ReqAuth req)) ''space_id'')
           (Get (Auth_Metadata (ReqAuth req)) ''app_id'')
           (Get (Auth_Metadata (ReqAuth req)) ''ip_address'') = (p, e) \<longrightarrow>
    pathLoginRenew ext req =
      (case validate ext cfg role p (RemoteAddr req) [] of
         (Err err, tr) \<Rightarrow> (Err err, tr)
       | (Panic, tr) \<Rightarrow> (Panic, tr)
       | (Ok _, tr) \<Rightarrow>
           (Ok (AuthResponse
              ((ReqAuth req)
                 \<lparr>Auth_LeaseOptions :=
                    (Auth_LeaseOptions (ReqAuth req))
                      \<lparr>Lease_TTL := TTL role, Lease_MaxTTL := MaxTTL role\<rparr>,
                  Auth_Period := Period role\<rparr>)), tr)))
   \<and> pathLoginRenew
        (ext\<lparr>NewPCFCertificate :=
               (\<lambda>a b c d i. (fst (NewPCFCertificate ext a b c d i), g a b c d i))\<rparr>) req
       = pathLoginRenew ext req"
  using pathLoginRenew_validated [of ext req cfg role p e]
    pathLoginRenew_ignores_reconstruction_error [of ext g req]
  by simp

text \<open>
  A reconstruction that returns the certificate together with an error: the renewal
  succeeds all the same. A reconstruction that returns an error and no certificate (the
  metadata has lost its instance ID): \<^verbatim>\<open>validate\<close> is still called, on the nil pointer,
  and panics.
\<close>

theorem renewal_drops_reconstruction_error_witness:
  "NewPCFCertificate
     (demo_ext\<lparr>NewPCFCertificate :=
        (\<lambda>a b c d i. (Some demo_cert, Some ''ip address is unparseable''))\<rparr>)
     ''instance-1'' ''org-1'' ''space-1'' ''app-1'' ''10.0.0.5''
     = (Some demo_cert, Some ''ip address is unparseable'')
   \<and> fst (pathLoginRenew
       (demo_ext\<lparr>NewPCFCertificate :=
          (\<lambda>a b c d i. (Some demo_cert, Some ''ip address is unparseable''))\<rparr>) demo_req) =
      Ok (AuthResponse
        (demo_auth\<lparr>Auth_LeaseOptions :=
                     \<lparr>Lease_TTL = 3600000000000, Lease_MaxTTL = 7200000000000,
                      Lease_Renewable = True\<rparr>,
                   Auth_Period := 0\<rparr>))
   \<and> NewPCFCertificate demo_ext [] ''org-1'' ''space-1'' ''app-1'' ''10.0.0.5''
     = (None, Some ''no instance ID on given certificate'')
   \<and> pathLoginRenew demo_ext
       (demo_req\<lparr>ReqAuth := demo_auth\<lparr>Auth_Metadata :=
          [''role'' \<mapsto> ''my-role'', ''org_id'' \<mapsto> ''org-1'', ''app_id'' \<mapsto> ''app-1'',
           ''space_id'' \<mapsto> ''space-1'', ''ip_address'' \<mapsto> ''10.0.0.5'']\<rparr>\<rparr>) = (Panic, [])"
proof -
  let ?ext = "demo_ext\<lparr>NewPCFCertificate :=
        (\<lambda>a b c d i. (Some demo_cert, Some ''ip address is unparseable''))\<rparr>"
  let ?req = "demo_req\<lparr>ReqAuth := demo_auth\<lparr>Auth_Metadata :=
          [''role'' \<mapsto> ''my-role'', ''org_id'' \<mapsto> ''org-1'', ''app_id'' \<mapsto> ''app-1'',
           ''space_id'' \<mapsto> ''space-1'', ''ip_address'' \<mapsto> ''10.0.0.5'']\<rparr>\<rparr>"
  have found: "config ?ext (Storage demo_req) = Inr (Some demo_cfg)
      \<and> Get (Auth_Metadata (ReqAuth demo_req)) ''role'' \<noteq> []
      \<and> getRole ?ext (Storage demo_req) (Get (Auth_Metadata (ReqAuth demo_req)) ''role'')
          = Inr (Some demo_role)
      \<and> NewPCFCertificate ?ext
           (Get (Auth_Metadata (ReqAuth demo_req)) ''instance_id'')
           (Get (Auth_Metadata (ReqAuth demo_req)) ''org_id'')
           (Get (Auth_Metadata (ReqAuth demo_req)) ''space_id'')
           (Get (Auth_Metadata (ReqAuth demo_req)) ''app_id'')
           (Get (Auth_Metadata (ReqAuth demo_req)) ''ip_address'')
          = (Some demo_cert, Some ''ip address is unparseable'')"
    by (simp add: demo_ext_def demo_req_def demo_auth_def Get_def)
  have valid: "fst (validate ?ext demo_cfg demo_role (Some demo_cert) (RemoteAddr demo_req) [])
      = Ok ()"
    by (simp add: model_defs demo_defs)
  have with_error: "fst (pathLoginRenew ?ext demo_req) =
      Ok (AuthResponse
        (demo_auth\<lparr>Auth_LeaseOptions :=
                     \<lparr>Lease_TTL = 3600000000000, Lease_MaxTTL = 7200000000000,
                      Lease_Renewable = True\<rparr>,
                   Auth_Period := 0\<rparr>))"
    using valid
    unfolding renewal_drops_reconstruction_error
        [of ?ext demo_req demo_cfg demo_role "Some demo_cert" "Some ''ip address is unparseable''",
         THEN conjunct1, rule_format, OF found]
    by (cases "validate ?ext demo_cfg demo_role (Some demo_cert) (RemoteAddr demo_req) []")
       (simp add: demo_req_def demo_auth_def demo_role_def)
  have lost: "config demo_ext (Storage ?req) = Inr (Some demo_cfg)
      \<and> Get (Auth_Metadata (ReqAuth ?req)) ''role'' \<noteq> []
      \<and> getRole demo_ext (Storage ?req) (Get (Auth_Metadata (ReqAuth ?req)) ''role'')
          = Inr (Some demo_role)
      \<and> NewPCFCertificate demo_ext
           (Get (Auth_Metadata (ReqAuth ?req)) ''instance_id'')
           (Get (Auth_Metadata (ReqAuth ?req)) ''org_id'')
           (Get (Auth_Metadata (ReqAuth ?req)) ''space_id'')
           (Get (Auth_Metadata (ReqAuth ?req)) ''app_id'')
           (Get (Auth_Metadata (ReqAuth ?req)) ''ip_address'')
          = (None, Some ''no instance ID on given certificate'')"
    by (simp add: demo_ext_def demo_req_def Get_def)
  have nil: "pathLoginRenew demo_ext ?req = (Panic, [])"
    unfolding renewal_drops_reconstruction_error
        [of demo_ext ?req demo_cfg demo_role None "Some ''no instance ID on given certificate''",
         THEN conjunct1, rule_format, OF lost]
    by (simp add: validate_def)
  show ?thesis
    using with_error nil by (simp add: demo_ext_def)
qed


end
